theory Spec2Isabelle
  imports Complex_Main "HOL-Library.Sublist" "HOL-Library.AList"
begin

section \<open>Python values shared by the three modules\<close>

text \<open>
  The repository holds three copies of the query code:
  \<^item> \<^verbatim>\<open>src/spotify.py\<close>, class SpotifyClient, confidences on the scale 0..100
    (definitions suffixed \<open>_ocp\<close>);
  \<^item> \<^verbatim>\<open>src/skill_spotify/spotify.py\<close>, class SpotifyClient, confidences on the
    scale 0..1 (suffix \<open>_client\<close>);
  \<^item> \<^verbatim>\<open>src/skill_spotify/__init__.py\<close>, class SkillSpotify (suffix \<open>_skill\<close>
    where the client has a function of the same name).

  Floats are modelled as reals, and \<^verbatim>\<open>int(x * 100)\<close> as the integer part of the real
  product; the float product of the source can round up to a whole number that the
  real product stays just below, so the two differ by one at such values. The functions
  \<^verbatim>\<open>fuzzy_match\<close> and \<^verbatim>\<open>match_one\<close> of ovos_utils and the Spotify web API
  are outside the repository and enter every definition as parameters.
\<close>

datatype error =
  AttributeError | ValueError | TypeError | KeyError | IndexError | NameError
  | UnboundLocalError

text \<open>One entry of a search response (artist, album, track, show or playlist).\<close>

record item =
  item_name :: string
  item_popularity :: int
  item_artists :: "string list"
  item_uri :: string

text \<open>
  What the code stores under the key \<^verbatim>\<open>'data'\<close> of a result: \<^verbatim>\<open>None\<close>, one object
  of the backend (a playlist or an artist, which has a \<^verbatim>\<open>'uri'\<close>), or a whole search
  response, read here as the list of its items (the response itself has no key
  \<^verbatim>\<open>'uri'\<close>).
\<close>

datatype pydata = NoData | Object item | Response "item list"

text \<open>
  What the second component of a result tuple can be: the dictionary
  \<^verbatim>\<open>{'data': ..., 'name': ..., 'type': ...}\<close>, \<^verbatim>\<open>None\<close>, or a number
  (the \<^verbatim>\<open>0.0\<close> of \<^verbatim>\<open>NOTHING_FOUND = (None, 0.0)\<close>).
\<close>

record payload =
  p_data :: pydata
  p_name :: "string option"
  p_type :: string

text \<open>
  \<open>PItem\<close> is an object of the backend standing where the code expects one of the
  other values (a non-empty dictionary); \<open>PEmptyDict\<close> is \<^verbatim>\<open>{}\<close>.
\<close>

datatype pyval = PNone | PNum real | PStr string | PDict payload | PEmptyDict | PItem item

type_synonym pytuple = "pyval \<times> pyval"

text \<open>Python truthiness, as \<^verbatim>\<open>if x:\<close> and \<^verbatim>\<open>x and y\<close> read a value.\<close>

fun truthy :: "pyval \<Rightarrow> bool" where
  "truthy PNone = False"
| "truthy (PNum x) = (x \<noteq> 0)"
| "truthy (PStr s) = (s \<noteq> [])"
| "truthy (PDict d) = True"
| "truthy PEmptyDict = False"
| "truthy (PItem i) = True"

text \<open>\<^verbatim>\<open>src/spotify.py\<close> line 84: \<^verbatim>\<open>NOTHING_FOUND = (0.0, None)\<close>.\<close>

definition NOTHING_FOUND_ocp :: pytuple where
  "NOTHING_FOUND_ocp = (PNum 0, PNone)"

text \<open>
  \<^verbatim>\<open>src/skill_spotify/spotify.py\<close> line 271 and \<^verbatim>\<open>src/skill_spotify/__init__.py\<close>
  line 50: \<^verbatim>\<open>NOTHING_FOUND = (None, 0.0)\<close>.
\<close>

definition NOTHING_FOUND_client :: pytuple where
  "NOTHING_FOUND_client = (PNone, PNum 0)"

section \<open>best_result\<close>

text \<open>
  \<^verbatim>\<open>
  def best_result(results):
      if len(results) == 0:
          return SpotifyClient.NOTHING_FOUND
      else:
          results.reverse()
          return sorted(results, key=lambda x: x[0])[-1]
  \<close>
  The list holds tuples (confidence, data) whose confidence is a number.
  Python's \<^verbatim>\<open>sorted\<close> is a stable ascending sort, as \<^const>\<open>sort_key\<close> is.
\<close>

definition best_result_ocp :: "(real \<times> pyval) list \<Rightarrow> pytuple" where
  "best_result_ocp results =
     (if length results = 0 then NOTHING_FOUND_ocp
      else (case last (sort_key fst (rev results)) of (c, d) \<Rightarrow> (PNum c, d)))"

definition best_result_client :: "(real \<times> pyval) list \<Rightarrow> pytuple" where
  "best_result_client results =
     (if length results = 0 then NOTHING_FOUND_client
      else (case last (sort_key fst (rev results)) of (c, d) \<Rightarrow> (PNum c, d)))"

section \<open>Strings\<close>

text \<open>
  A string is a list of characters with code points below 256 (ASCII and the
  Latin-1 supplement); the definitions below are Python's on such text.
  \<^verbatim>\<open>str.lower()\<close> maps the capital letters, which are A..Z and the code points
  192..214 and 216..222, to the letter 32 places further on, and leaves every other
  character of this range as it is.
\<close>

definition lower_char :: "char \<Rightarrow> char" where
  "lower_char c =
     (let n = (of_char c :: nat)
      in if (65 \<le> n \<and> n \<le> 90) \<or> (192 \<le> n \<and> n \<le> 214) \<or> (216 \<le> n \<and> n \<le> 222)
         then char_of (n + 32) else c)"

definition str_lower :: "string \<Rightarrow> string" where
  "str_lower s = map lower_char s"

text \<open>
  \<^verbatim>\<open>str.strip()\<close> removes leading and trailing whitespace: tab, line feed,
  vertical tab, form feed, carriage return, the separators 0x1c..0x1f, space,
  next line (0x85) and the no-break space (0xa0).
\<close>

definition is_space :: "char \<Rightarrow> bool" where
  "is_space c = ((of_char c :: nat) \<in> {9, 10, 11, 12, 13, 28, 29, 30, 31, 32, 133, 160})"

definition str_strip :: "string \<Rightarrow> string" where
  "str_strip s = rev (dropWhile is_space (rev (dropWhile is_space s)))"

text \<open>\<^verbatim>\<open>sub in s\<close>: \<open>sub\<close> occurs in \<open>s\<close> as a contiguous substring.\<close>

fun str_contains :: "string \<Rightarrow> string \<Rightarrow> bool" where
  "str_contains sub [] = (sub = [])"
| "str_contains sub (c # cs) = (prefix sub (c # cs) \<or> str_contains sub cs)"

text \<open>
  \<^verbatim>\<open>s.split(sep)\<close> for a non-empty separator: the pieces between the
  non-overlapping occurrences of \<open>sep\<close>, found from the left. \<open>acc\<close> holds the
  current piece, reversed.
\<close>

function str_split_from :: "string \<Rightarrow> string \<Rightarrow> string \<Rightarrow> string list" where
  "str_split_from sep acc [] = [rev acc]"
| "str_split_from sep acc (c # cs) =
     (if sep \<noteq> [] \<and> prefix sep (c # cs)
      then rev acc # str_split_from sep [] (drop (length sep) (c # cs))
      else str_split_from sep (c # acc) cs)"
  by pat_completeness auto
termination
  by (relation "measure (\<lambda>(sep, acc, s). length s)") auto

definition str_split :: "string \<Rightarrow> string \<Rightarrow> string list" where
  "str_split sep s = str_split_from sep [] s"

text \<open>\<^verbatim>\<open>by_word = ' by '\<close> (the call \<^verbatim>\<open>self.translate('by')\<close> of the skill is not modelled).\<close>

definition by_word :: string where
  "by_word = '' by ''"

text \<open>
  \<^verbatim>\<open>re.sub(r'(\(.+\)|-.+)$', '', best)\<close>. The dot matches every character but the
  line feed and \<^verbatim>\<open>$\<close> matches at the end of the string or before a line feed
  that ends it, so a match starts at an opening parenthesis or a dash and runs to
  that point. \<open>chomp\<close> drops the final line feed, \<open>paren_tail\<close> and
  \<open>dash_tail\<close> say that the text after the first character completes a match,
  \<open>nl_tail\<close> is what the substitution leaves after it. The scan takes the leftmost
  match; nothing after it can match again.
\<close>

definition chomp :: "string \<Rightarrow> string" where
  "chomp s = (if s \<noteq> [] \<and> last s = CHR 0x0A then butlast s else s)"

definition paren_tail :: "string \<Rightarrow> bool" where
  "paren_tail s =
     (let w = chomp s
      in w \<noteq> [] \<and> last w = CHR '')'' \<and> butlast w \<noteq> [] \<and> CHR 0x0A \<notin> set w)"

definition dash_tail :: "string \<Rightarrow> bool" where
  "dash_tail s = (let w = chomp s in w \<noteq> [] \<and> CHR 0x0A \<notin> set w)"

definition nl_tail :: "string \<Rightarrow> string" where
  "nl_tail s = (if s \<noteq> [] \<and> last s = CHR 0x0A then [CHR 0x0A] else [])"

fun re_sub_qualifier :: "string \<Rightarrow> string" where
  "re_sub_qualifier [] = []"
| "re_sub_qualifier (c # cs) =
     (if c = CHR ''('' \<and> paren_tail cs then nl_tail cs
      else if c = CHR ''-'' \<and> dash_tail cs then nl_tail cs
      else c # re_sub_qualifier cs)"

text \<open>\<^verbatim>\<open>int(x)\<close> on a float: truncation towards zero.\<close>

definition py_int :: "real \<Rightarrow> int" where
  "py_int x = (if 0 \<le> x then \<lfloor>x\<rfloor> else \<lceil>x\<rceil>)"

section \<open>best_confidence\<close>

text \<open>The strategies \<^verbatim>\<open>src/spotify.py\<close> passes to \<^verbatim>\<open>fuzzy_match\<close>.\<close>

datatype strategy = DAMERAU_LEVENSHTEIN_SIMILARITY | TOKEN_SET_RATIO

text \<open>
  \<^verbatim>\<open>src/spotify.py\<close> lines 117-132:
  \<^verbatim>\<open>
  best = title.lower()
  best_stripped = re.sub(r'(\(.+\)|-.+)$', '', best).strip()
  return int(max(fuzzy_match(best, query, strategy=MatchStrategy.DAMERAU_LEVENSHTEIN_SIMILARITY),
             fuzzy_match(best_stripped, query, strategy=MatchStrategy.DAMERAU_LEVENSHTEIN_SIMILARITY)) * 100)
  \<close>
\<close>

definition best_confidence_ocp ::
  "(strategy \<Rightarrow> string \<Rightarrow> string \<Rightarrow> real) \<Rightarrow> string \<Rightarrow> string \<Rightarrow> int" where
  "best_confidence_ocp fuzzy_match title query =
     (let best = str_lower title;
          best_stripped = str_strip (re_sub_qualifier best)
      in py_int (max (fuzzy_match DAMERAU_LEVENSHTEIN_SIMILARITY best query)
                     (fuzzy_match DAMERAU_LEVENSHTEIN_SIMILARITY best_stripped query) * 100))"

text \<open>
  \<^verbatim>\<open>src/skill_spotify/spotify.py\<close> lines 302-317:
  \<^verbatim>\<open>
  best = title.lower()
  best_stripped = re.sub(r'(\(.+\)|-.+)$', '', best).strip()
  return max(fuzzy_match(best, query),
             fuzzy_match(best_stripped, query))
  \<close>
\<close>

definition best_confidence_client ::
  "(string \<Rightarrow> string \<Rightarrow> real) \<Rightarrow> string \<Rightarrow> string \<Rightarrow> real" where
  "best_confidence_client fuzzy_match title query =
     (let best = str_lower title;
          best_stripped = str_strip (re_sub_qualifier best)
      in max (fuzzy_match best query) (fuzzy_match best_stripped query))"

text \<open>
  \<^verbatim>\<open>src/skill_spotify/__init__.py\<close> lines 74-91 end in
  \<^verbatim>\<open>
  return max(fuzz.ratio(best, query),
             fuzz-ratio(best_stripped, query))
  \<close>
  The second argument subtracts from the module \<^verbatim>\<open>fuzz\<close> the value of a call of the
  name \<^verbatim>\<open>ratio\<close>, which the module never binds: evaluating it raises NameError,
  whatever the arguments are.
\<close>

definition best_confidence_skill :: "string \<Rightarrow> string \<Rightarrow> error + real" where
  "best_confidence_skill title query = Inl NameError"

section \<open>The sub-queries of the two clients\<close>

text \<open>
  \<open>search q kind\<close> stands for \<^verbatim>\<open>self.spotify.search(q, type=kind)\<close>: \<open>None\<close> is a
  falsy response, \<open>Some items\<close> a response whose \<^verbatim>\<open>[kind + 's']['items']\<close> is
  \<open>items\<close>.

  \<^verbatim>\<open>src/spotify.py\<close> lines 167-186:
  \<^verbatim>\<open>
  data = self.spotify.search(artist, type='artist')
  if data and data['artists']['items']:
      best = data['artists']['items'][0]['name']
      confidence = fuzzy_match(best, artist.lower(),
                               strategy=MatchStrategy.DAMERAU_LEVENSHTEIN_SIMILARITY) * 100
      confidence = min(confidence, 100)
      return (confidence, {'data': data, 'name': None, 'type': 'artist'})
  else:
      return SpotifyClient.NOTHING_FOUND
  \<close>
\<close>

definition query_artist_ocp ::
  "(strategy \<Rightarrow> string \<Rightarrow> string \<Rightarrow> real) \<Rightarrow> (string \<Rightarrow> string \<Rightarrow> item list option)
     \<Rightarrow> string \<Rightarrow> pytuple" where
  "query_artist_ocp fuzzy_match search artist =
     (case search artist ''artist'' of
        Some (b # bs) \<Rightarrow>
          (let best = item_name b;
               confidence = fuzzy_match DAMERAU_LEVENSHTEIN_SIMILARITY best (str_lower artist) * 100
           in (PNum (min confidence 100),
               PDict \<lparr>p_data = Response (b # bs), p_name = None, p_type = ''artist''\<rparr>))
      | _ \<Rightarrow> NOTHING_FOUND_ocp)"

text \<open>
  \<^verbatim>\<open>src/skill_spotify/spotify.py\<close> lines 404-424: as above, with
  \<^verbatim>\<open>bonus += 0.1\<close> first and
  \<^verbatim>\<open>confidence = min(fuzzy_match(best, artist.lower()) + bonus, 1.0)\<close>.
\<close>

definition query_artist_client ::
  "(string \<Rightarrow> string \<Rightarrow> real) \<Rightarrow> (string \<Rightarrow> string \<Rightarrow> item list option)
     \<Rightarrow> string \<Rightarrow> real \<Rightarrow> pytuple" where
  "query_artist_client fuzzy_match search artist bonus0 =
     (let bonus = bonus0 + 0.1 in
      case search artist ''artist'' of
        Some (b # bs) \<Rightarrow>
          (let best = item_name b;
               confidence = fuzzy_match best (str_lower artist) + bonus
           in (PNum (min confidence 1.0),
               PDict \<lparr>p_data = Response (b # bs), p_name = None, p_type = ''artist''\<rparr>))
      | _ \<Rightarrow> NOTHING_FOUND_client)"

text \<open>
  \<^verbatim>\<open>src/spotify.py\<close> lines 188-218:
  \<^verbatim>\<open>
  by_word = ' by '
  bonus = 0
  if len(album.split(by_word)) > 1:
      album, artist = album.split(by_word)
      album_search = '*{}* artist:{}'.format(album, artist)
      bonus = 10
  else:
      album_search = album
  data = self.spotify.search(album_search, type='album')
  if data and data['albums']['items']:
      best = data['albums']['items'][0]['name'].lower()
      confidence = self.best_confidence(best, album)
      confidence = min(confidence + bonus, 100)
      return (confidence, {'data': data, 'name': None, 'type': 'album'})
  return SpotifyClient.NOTHING_FOUND
  \<close>
  Unpacking a split of three or more pieces into two names raises ValueError.
\<close>

definition query_album_ocp ::
  "(strategy \<Rightarrow> string \<Rightarrow> string \<Rightarrow> real) \<Rightarrow> (string \<Rightarrow> string \<Rightarrow> item list option)
     \<Rightarrow> string \<Rightarrow> error + pytuple" where
  "query_album_ocp fuzzy_match search album0 =
     (let parts = str_split by_word album0 in
      if length parts > 1 \<and> length parts \<noteq> 2 then Inl ValueError
      else
        (let album = (if length parts > 1 then parts ! 0 else album0);
             album_search =
               (if length parts > 1 then ''*'' @ parts ! 0 @ ''* artist:'' @ parts ! 1
                else album0);
             bonus = (if length parts > 1 then 10 else 0 :: int)
         in case search album_search ''album'' of
              Some (b # bs) \<Rightarrow>
                (let best = str_lower (item_name b);
                     confidence = best_confidence_ocp fuzzy_match best album
                 in Inr (PNum (of_int (min (confidence + bonus) 100)),
                         PDict \<lparr>p_data = Response (b # bs), p_name = None, p_type = ''album''\<rparr>))
            | _ \<Rightarrow> Inr NOTHING_FOUND_ocp))"

text \<open>
  \<^verbatim>\<open>src/skill_spotify/spotify.py\<close> lines 426-456: the same with a \<^verbatim>\<open>bonus\<close>
  parameter, \<^verbatim>\<open>bonus += 0.1\<close> in the split branch and
  \<^verbatim>\<open>confidence = min(confidence + bonus, 1.0)\<close>.
\<close>

definition query_album_client ::
  "(string \<Rightarrow> string \<Rightarrow> real) \<Rightarrow> (string \<Rightarrow> string \<Rightarrow> item list option)
     \<Rightarrow> string \<Rightarrow> real \<Rightarrow> error + pytuple" where
  "query_album_client fuzzy_match search album0 bonus0 =
     (let parts = str_split by_word album0 in
      if length parts > 1 \<and> length parts \<noteq> 2 then Inl ValueError
      else
        (let album = (if length parts > 1 then parts ! 0 else album0);
             album_search =
               (if length parts > 1 then ''*'' @ parts ! 0 @ ''* artist:'' @ parts ! 1
                else album0);
             bonus = (if length parts > 1 then bonus0 + 0.1 else bonus0)
         in case search album_search ''album'' of
              Some (b # bs) \<Rightarrow>
                (let best = str_lower (item_name b);
                     confidence = best_confidence_client fuzzy_match best album
                 in Inr (PNum (min (confidence + bonus) 1.0),
                         PDict \<lparr>p_data = Response (b # bs), p_name = None, p_type = ''album''\<rparr>))
            | _ \<Rightarrow> Inr NOTHING_FOUND_client))"

text \<open>
  \<^verbatim>\<open>src/spotify.py\<close> lines 220-252:
  \<^verbatim>\<open>
  by_word = ' by '
  if len(song.split(by_word)) > 1:
      song, artist = song.split(by_word)
      song_search = '*{}* artist:{}'.format(song, artist)
  else:
      song_search = song
  data = self.spotify.search(song_search, type='track')
  if data and len(data['tracks']['items']) > 0:
      tracks = [(self.best_confidence(d['name'], song), d)
                for d in data['tracks']['items']]
      tracks.sort(key=lambda x: x[0])
      tracks.reverse()  # Place best matches first
      # Find pretty similar tracks to the best match
      tracks = [t for t in tracks if t[0] > tracks[0][0] - 0.1]
      # Sort remaining tracks by popularity
      tracks.sort(key=lambda x: x[1]['popularity'])
      bonus = int(fuzzy_match(song_search, tracks[-1][1]['artists'][0]['name'],
                              strategy=MatchStrategy.TOKEN_SET_RATIO) * 100)
      LOG.debug([(t[0] + bonus, t[1]['name'], t[1]['artists'][0]['name'])
                 for t in tracks])
      data['tracks']['items'] = [tracks[-1][1]]
      return (min(100, tracks[-1][0] + bonus) ,
              {'data': data, 'name': None, 'type': 'track'})
  else:
      return SpotifyClient.NOTHING_FOUND
  \<close>
  \<open>tracks1\<close> is never empty and its head passes the filter, so \<open>hd\<close> and \<open>last\<close>
  below read lists that have an element. A winner without artists raises IndexError,
  and so does any remaining track without artists when the list is logged.
\<close>

definition query_song_ocp ::
  "(strategy \<Rightarrow> string \<Rightarrow> string \<Rightarrow> real) \<Rightarrow> (string \<Rightarrow> string \<Rightarrow> item list option)
     \<Rightarrow> string \<Rightarrow> error + pytuple" where
  "query_song_ocp fuzzy_match search song0 =
     (let parts = str_split by_word song0 in
      if length parts > 1 \<and> length parts \<noteq> 2 then Inl ValueError
      else
        (let song = (if length parts > 1 then parts ! 0 else song0);
             song_search =
               (if length parts > 1 then ''*'' @ parts ! 0 @ ''* artist:'' @ parts ! 1
                else song0)
         in case search song_search ''track'' of
              Some (d # ds) \<Rightarrow>
                (let tracks = map (\<lambda>d. (best_confidence_ocp fuzzy_match (item_name d) song, d)) (d # ds);
                     tracks1 = rev (sort_key fst tracks);
                     tracks2 = filter (\<lambda>t. real_of_int (fst t) > real_of_int (fst (hd tracks1)) - 0.1) tracks1;
                     tracks3 = sort_key (\<lambda>t. item_popularity (snd t)) tracks2;
                     best = last tracks3
                 in case item_artists (snd best) of
                      [] \<Rightarrow> Inl IndexError
                    | a # _ \<Rightarrow>
                        (let bonus = py_int (fuzzy_match TOKEN_SET_RATIO song_search a * 100)
                         in if list_ex (\<lambda>t. item_artists (snd t) = []) tracks3 then Inl IndexError
                            else Inr (PNum (of_int (min 100 (fst best + bonus))),
                                      PDict \<lparr>p_data = Response [snd best], p_name = None, p_type = ''track''\<rparr>)))
            | _ \<Rightarrow> Inr NOTHING_FOUND_ocp))"

text \<open>
  \<^verbatim>\<open>src/skill_spotify/spotify.py\<close> lines 458-489: the same selection on the unit
  scale, with a \<^verbatim>\<open>bonus\<close> parameter and the last lines
  \<^verbatim>\<open>
      LOG.debug([(t[0], t[1]['name'], t[1]['artists'][0]['name'])
                 for t in tracks])
      data['tracks']['items'] = [tracks[-1][1]]
      return (tracks[-1][0] + bonus,
              {'data': data, 'name': None, 'type': 'track'})
  \<close>
\<close>

definition query_song_client ::
  "(string \<Rightarrow> string \<Rightarrow> real) \<Rightarrow> (string \<Rightarrow> string \<Rightarrow> item list option)
     \<Rightarrow> string \<Rightarrow> real \<Rightarrow> error + pytuple" where
  "query_song_client fuzzy_match search song0 bonus =
     (let parts = str_split by_word song0 in
      if length parts > 1 \<and> length parts \<noteq> 2 then Inl ValueError
      else
        (let song = (if length parts > 1 then parts ! 0 else song0);
             song_search =
               (if length parts > 1 then ''*'' @ parts ! 0 @ ''* artist:'' @ parts ! 1
                else song0)
         in case search song_search ''track'' of
              Some (d # ds) \<Rightarrow>
                (let tracks = map (\<lambda>d. (best_confidence_client fuzzy_match (item_name d) song, d)) (d # ds);
                     tracks1 = rev (sort_key fst tracks);
                     tracks2 = filter (\<lambda>t. fst t > fst (hd tracks1) - 0.1) tracks1;
                     tracks3 = sort_key (\<lambda>t. item_popularity (snd t)) tracks2;
                     best = last tracks3
                 in if list_ex (\<lambda>t. item_artists (snd t) = []) tracks3 then Inl IndexError
                    else Inr (PNum (fst best + bonus),
                              PDict \<lparr>p_data = Response [snd best], p_name = None, p_type = ''track''\<rparr>))
            | _ \<Rightarrow> Inr NOTHING_FOUND_client))"

text \<open>
  \<^verbatim>\<open>src/skill_spotify/spotify.py\<close> lines 491-503. \<open>playlists\<close> is the dictionary the
  property \<^verbatim>\<open>self.playlists\<close> returns, \<open>match_one\<close> the function of ovos_utils,
  read as the code unpacks it: (key, confidence). The code hands it the dictionary
  itself, so what it calls \<^verbatim>\<open>key\<close> is whatever the library picks from a dictionary
  of choices, a key (\<open>PStr\<close>) or a value (\<open>PItem\<close>).
  \<^verbatim>\<open>
  playlists = self.playlists
  if len(playlists) > 0:
      key, confidence = match_one(playlist.lower(), playlists)
      if confidence > 0.7:
          return key, confidence
  return SpotifyClient.NOTHING_FOUND
  \<close>
\<close>

definition get_best_user_playlist_client ::
  "(string \<Rightarrow> (string \<times> item) list \<Rightarrow> pyval \<times> real) \<Rightarrow> (string \<times> item) list
     \<Rightarrow> string \<Rightarrow> pytuple" where
  "get_best_user_playlist_client match_one playlists playlist =
     (if length playlists > 0
      then (case match_one (str_lower playlist) playlists of
              (key, confidence) \<Rightarrow>
                if confidence > 0.7 then (key, PNum confidence)
                else NOTHING_FOUND_client)
      else NOTHING_FOUND_client)"

section \<open>generic_query of the client\<close>

definition DIRECT_RESPONSE_CONFIDENCE :: real where
  "DIRECT_RESPONSE_CONFIDENCE = 0.8"

definition MATCH_CONFIDENCE :: real where
  "MATCH_CONFIDENCE = 0.5"

text \<open>
  How the body of \<^verbatim>\<open>generic_query\<close> goes on after a lookup: an exception, a
  return, or the next statement with the candidates accumulated so far.
\<close>

datatype 'a flow = Raise error | Return pytuple | Next 'a

text \<open>
  The four lines that follow every lookup:
  \<^verbatim>\<open>
  if conf and conf > SpotifyClient.DIRECT_RESPONSE_CONFIDENCE:
      return conf, data
  elif conf and conf > SpotifyClient.MATCH_CONFIDENCE:
      results.append((conf, data))
  \<close>
  Comparing a non-empty string or a dictionary with a float raises TypeError.
\<close>

definition threshold_step :: "pytuple \<Rightarrow> (real \<times> pyval) list \<Rightarrow> (real \<times> pyval) list flow" where
  "threshold_step r results =
     (case fst r of
        PNum c \<Rightarrow>
          if c \<noteq> 0 \<and> c > DIRECT_RESPONSE_CONFIDENCE then Return r
          else if c \<noteq> 0 \<and> c > MATCH_CONFIDENCE then Next (results @ [(c, snd r)])
          else Next results
      | PNone \<Rightarrow> Next results
      | PEmptyDict \<Rightarrow> Next results
      | PStr s \<Rightarrow> if s = [] then Next results else Raise TypeError
      | PDict d \<Rightarrow> Raise TypeError
      | PItem i \<Rightarrow> Raise TypeError)"

definition and_then :: "'a flow \<Rightarrow> ('a \<Rightarrow> 'b flow) \<Rightarrow> 'b flow" where
  "and_then m f = (case m of Raise e \<Rightarrow> Raise e | Return r \<Rightarrow> Return r | Next a \<Rightarrow> f a)"

definition lookup_step :: "error + pytuple \<Rightarrow> (real \<times> pyval) list \<Rightarrow> (real \<times> pyval) list flow" where
  "lookup_step r results = (case r of Inl e \<Rightarrow> Raise e | Inr t \<Rightarrow> threshold_step t results)"

text \<open>
  The first lookup of \<^verbatim>\<open>generic_query\<close> (\<^verbatim>\<open>src/skill_spotify/spotify.py\<close> lines
  354-368):
  \<^verbatim>\<open>
  results = []
  data = {}
  playlist, conf = self.get_best_user_playlist(phrase)
  if playlist:
      uri = self.playlists[playlist]
      data = {'data': uri, 'name': playlist, 'type': 'playlist'}
  if conf and conf > SpotifyClient.DIRECT_RESPONSE_CONFIDENCE:
      return (conf, data)
  elif conf and conf > SpotifyClient.MATCH_CONFIDENCE:
      results.append((conf, data))
  \<close>
  The keys of the dictionary are strings: a number finds no entry (KeyError), and a
  dictionary cannot be used as a key at all (TypeError).
\<close>

definition user_playlist_step ::
  "(string \<Rightarrow> (string \<times> item) list \<Rightarrow> pyval \<times> real) \<Rightarrow> (string \<times> item) list
     \<Rightarrow> string \<Rightarrow> (real \<times> pyval) list flow" where
  "user_playlist_step match_one playlists phrase =
     (case get_best_user_playlist_client match_one playlists phrase of
        (playlist, conf) \<Rightarrow>
          (if truthy playlist
           then (case playlist of
                   PStr k \<Rightarrow>
                     (case map_of playlists k of
                        None \<Rightarrow> Raise KeyError
                      | Some uri \<Rightarrow>
                          threshold_step
                            (conf, PDict \<lparr>p_data = Object uri, p_name = Some k, p_type = ''playlist''\<rparr>) [])
                 | PNum x \<Rightarrow> Raise KeyError
                 | _ \<Rightarrow> Raise TypeError)
           else threshold_step (conf, PEmptyDict) []))"

text \<open>
  \<^verbatim>\<open>src/skill_spotify/spotify.py\<close> lines 341-402. After the user playlists the
  method calls \<^verbatim>\<open>self.query_artist(phrase, bonus=0)\<close>,
  \<^verbatim>\<open>self.query_song(phrase, bonus=0)\<close> and \<^verbatim>\<open>self.query_album(phrase, bonus=0)\<close>,
  each followed by the threshold lines, and then
  \<^verbatim>\<open>
  conf, data = self.get_best_public_playlist(phrase)
  \<close>
  The class SpotifyClient of this module defines no \<^verbatim>\<open>get_best_public_playlist\<close>
  and has no base class: reading the attribute raises AttributeError, so the lines
  after it, \<^verbatim>\<open>return self.best_result(results)\<close> among them, are never reached.
\<close>

definition generic_query_client ::
  "(string \<Rightarrow> string \<Rightarrow> real) \<Rightarrow> (string \<Rightarrow> (string \<times> item) list \<Rightarrow> pyval \<times> real)
     \<Rightarrow> (string \<Rightarrow> string \<Rightarrow> item list option) \<Rightarrow> (string \<times> item) list
     \<Rightarrow> string \<Rightarrow> error + pytuple" where
  "generic_query_client fuzzy_match match_one search playlists phrase =
     (case
        and_then (user_playlist_step match_one playlists phrase) (\<lambda>results.
        and_then (threshold_step (query_artist_client fuzzy_match search phrase 0) results) (\<lambda>results.
        and_then (lookup_step (query_song_client fuzzy_match search phrase 0) results) (\<lambda>results.
        and_then (lookup_step (query_album_client fuzzy_match search phrase 0) results) (\<lambda>results.
        (Raise AttributeError :: unit flow)))))
      of Raise e \<Rightarrow> Inl e | Return r \<Rightarrow> Inr r | Next u \<Rightarrow> Inl AttributeError)"

section \<open>The skill: continue_playback, match_query_phrase, query_show\<close>

text \<open>
  \<^verbatim>\<open>src/skill_spotify/__init__.py\<close> lines 341-350:
  \<^verbatim>\<open>
  def continue_playback(self, phrase, bonus):
      if phrase.strip() == 'spotify':
          return (1.0, {'data': None, 'name': None, 'type': 'continue'})
      else:
          return NOTHING_FOUND
  \<close>
\<close>

definition continue_playback :: "string \<Rightarrow> real \<Rightarrow> pytuple" where
  "continue_playback phrase bonus =
     (if str_strip phrase = ''spotify''
      then (PNum 1.0, PDict \<lparr>p_data = NoData, p_name = None, p_type = ''continue''\<rparr>)
      else NOTHING_FOUND_client)"

text \<open>
  \<^verbatim>\<open>src/skill_spotify/__init__.py\<close> lines 275-337, \<^verbatim>\<open>match_query_phrase\<close>:
  \<^verbatim>\<open>
  if not self.spotify:
      self.log.info('Spotify is not available to search')
      if 'spotify' in phrase:
          return [{
              "match_confidence": level,
              "media_type": MediaType.MUSIC,
              "playback": PlaybackType.AUDIO,
              "skill_icon": self.skill_icon,
          }]
      else:
          return None

  spotify_specified = 'spotify' in phrase
  bonus = 0.1 if spotify_specified else 0.0
  phrase = re.sub(self.translate_regex('on_spotify'), '', phrase, re.IGNORECASE)
  confidence, data = self.continue_playback(phrase, bonus)
  if not data:
      confidence, data = self.specific_query(phrase, bonus)
      if not data:
          confidence, data = self.generic_query(phrase, bonus)
  if data:
      if data.get('type') in ['saved_tracks', 'album', 'artist', 'track', 'playlist', 'show']:
          if spotify_specified:
              level = 100
          else:
              level = confidence
      elif data.get('type') == 'continue':
          if spotify_specified > 0:
              level = 100
          else:
              level = 70
              phrase += ' on spotify'
      else:
          level = 70
      response = [{
          "match_confidence": level,
          "uri": f"spotify://{data['data']['uri']}",
          "media_type": MediaType.MUSIC,
          "playback": PlaybackType.AUDIO,
          "skill_icon": self.skill_icon,
      }]
      return response
  else:
      self.log.debug('Couldn\'t find anything to play on Spotify')
  \<close>
  \<open>spotify\<close> is the truth value of \<^verbatim>\<open>self.spotify\<close>. The variable \<^verbatim>\<open>level\<close> is
  local to the function and is assigned only further down, so the response of the
  first branch cannot be built: reading \<^verbatim>\<open>level\<close> raises UnboundLocalError.

  The regular expression is a resource file outside \<^verbatim>\<open>src/\<close>; \<open>on_spotify_sub\<close>
  stands for the whole substitution. \<open>specific_query\<close> and \<open>generic_query\<close> are the
  two later stages, each with the unpacking of its result.

  The response is a list of one dictionary; its three constant entries are left
  out, and the function returns \<^verbatim>\<open>None\<close> (\<open>None\<close> below) when nothing was found.
  \<^verbatim>\<open>data['data']['uri']\<close> subscripts what the result holds under \<^verbatim>\<open>'data'\<close>:
  \<^verbatim>\<open>None\<close> cannot be subscripted (TypeError), a search response has no key
  \<^verbatim>\<open>'uri'\<close> (KeyError), an object of the backend has one. A result that is itself an
  object of the backend has no key \<^verbatim>\<open>'data'\<close> (KeyError); a non-empty string or a
  non-zero number has no method \<^verbatim>\<open>get\<close> (AttributeError).
\<close>

record response =
  r_match_confidence :: pyval
  r_uri :: string

definition match_level :: "bool \<Rightarrow> pyval \<Rightarrow> payload \<Rightarrow> pyval" where
  "match_level spotify_specified confidence d =
     (if p_type d \<in> set [''saved_tracks'', ''album'', ''artist'', ''track'', ''playlist'', ''show'']
      then (if spotify_specified then PNum 100 else confidence)
      else if p_type d = ''continue''
      then (if spotify_specified then PNum 100 else PNum 70)
      else PNum 70)"

definition match_query_phrase ::
  "(string \<Rightarrow> string) \<Rightarrow> (string \<Rightarrow> real \<Rightarrow> error + pytuple)
     \<Rightarrow> (string \<Rightarrow> real \<Rightarrow> error + pytuple) \<Rightarrow> bool \<Rightarrow> string \<Rightarrow> error + response option" where
  "match_query_phrase on_spotify_sub specific_query generic_query spotify phrase0 =
     (if \<not> spotify
      then (if str_contains ''spotify'' phrase0 then Inl UnboundLocalError else Inr None)
      else
     (let spotify_specified = str_contains ''spotify'' phrase0;
          bonus = (if spotify_specified then 0.1 else 0.0);
          phrase = on_spotify_sub phrase0;
          found =
            (case continue_playback phrase bonus of
               (confidence, data) \<Rightarrow>
                 if \<not> truthy data
                 then (case specific_query phrase bonus of
                         Inl e \<Rightarrow> Inl e
                       | Inr (confidence, data) \<Rightarrow>
                           if \<not> truthy data then generic_query phrase bonus
                           else Inr (confidence, data))
                 else Inr (confidence, data))
      in case found of
           Inl e \<Rightarrow> Inl e
         | Inr (confidence, data) \<Rightarrow>
             (case data of
                PDict d \<Rightarrow>
                  (let level = match_level spotify_specified confidence d
                   in case p_data d of
                        NoData \<Rightarrow> Inl TypeError
                      | Response items \<Rightarrow> Inl KeyError
                      | Object obj \<Rightarrow>
                          Inr (Some \<lparr>r_match_confidence = level,
                                     r_uri = ''spotify://'' @ item_uri obj\<rparr>))
              | PItem i \<Rightarrow> Inl KeyError
              | PNum x \<Rightarrow> if x = 0 then Inr None else Inl AttributeError
              | PStr x \<Rightarrow> if x = [] then Inr None else Inl AttributeError
              | _ \<Rightarrow> Inr None)))"

text \<open>
  \<^verbatim>\<open>src/skill_spotify/__init__.py\<close> lines 406-470, \<^verbatim>\<open>generic_query\<close> of the
  skill. The body is that of the client, with three differences: \<^verbatim>\<open>data\<close> is not
  initialised before the first lookup, so using it while no playlist was found
  raises UnboundLocalError; the sub-queries get the \<^verbatim>\<open>bonus\<close> of the caller; and
  the class defines \<^verbatim>\<open>get_best_public_playlist\<close>, so the method ends in
  \<^verbatim>\<open>
  conf, data = self.get_best_public_playlist(phrase)
  if conf and conf > DIRECT_RESPONSE_CONFIDENCE:
      return conf, data
  elif conf and conf > MATCH_CONFIDENCE:
      results.append((conf, data))
  return best_result(results)
  \<close>
  The five lookups are parameters, each the result of the call or its exception;
  the first component of the result lists the lookups that were evaluated.
\<close>

datatype lookup = UserPlaylist | Artist | Track | Album | PublicPlaylist

definition user_playlist_step_skill ::
  "error + pytuple \<Rightarrow> (string \<times> item) list \<Rightarrow> (real \<times> pyval) list flow" where
  "user_playlist_step_skill found user_playlists =
     (case found of
        Inl e \<Rightarrow> Raise e
      | Inr (playlist, conf) \<Rightarrow>
          (if truthy playlist
           then (case playlist of
                   PStr k \<Rightarrow>
                     (case map_of user_playlists k of
                        None \<Rightarrow> Raise KeyError
                      | Some uri \<Rightarrow>
                          threshold_step
                            (conf, PDict \<lparr>p_data = Object uri, p_name = Some k, p_type = ''playlist''\<rparr>) [])
                 | PNum x \<Rightarrow> Raise KeyError
                 | _ \<Rightarrow> Raise TypeError)
           else (case threshold_step (conf, PNone) [] of
                   Raise e \<Rightarrow> Raise e
                 | Return r \<Rightarrow> Raise UnboundLocalError
                 | Next results \<Rightarrow> if results = [] then Next [] else Raise UnboundLocalError)))"

definition generic_query_skill ::
  "(string \<Rightarrow> error + pytuple) \<Rightarrow> (string \<times> item) list
     \<Rightarrow> (string \<Rightarrow> real \<Rightarrow> error + pytuple) \<Rightarrow> (string \<Rightarrow> real \<Rightarrow> error + pytuple)
     \<Rightarrow> (string \<Rightarrow> real \<Rightarrow> error + pytuple) \<Rightarrow> (string \<Rightarrow> error + pytuple)
     \<Rightarrow> string \<Rightarrow> real \<Rightarrow> lookup list \<times> (error + pytuple)" where
  "generic_query_skill get_best_user_playlist user_playlists query_artist query_song query_album
       get_best_public_playlist phrase bonus =
     (case user_playlist_step_skill (get_best_user_playlist phrase) user_playlists of
        Raise e \<Rightarrow> ([UserPlaylist], Inl e)
      | Return r \<Rightarrow> ([UserPlaylist], Inr r)
      | Next results \<Rightarrow>
     (case lookup_step (query_artist phrase bonus) results of
        Raise e \<Rightarrow> ([UserPlaylist, Artist], Inl e)
      | Return r \<Rightarrow> ([UserPlaylist, Artist], Inr r)
      | Next results \<Rightarrow>
     (case lookup_step (query_song phrase bonus) results of
        Raise e \<Rightarrow> ([UserPlaylist, Artist, Track], Inl e)
      | Return r \<Rightarrow> ([UserPlaylist, Artist, Track], Inr r)
      | Next results \<Rightarrow>
     (case lookup_step (query_album phrase bonus) results of
        Raise e \<Rightarrow> ([UserPlaylist, Artist, Track, Album], Inl e)
      | Return r \<Rightarrow> ([UserPlaylist, Artist, Track, Album], Inr r)
      | Next results \<Rightarrow>
     (case lookup_step (get_best_public_playlist phrase) results of
        Raise e \<Rightarrow> ([UserPlaylist, Artist, Track, Album, PublicPlaylist], Inl e)
      | Return r \<Rightarrow> ([UserPlaylist, Artist, Track, Album, PublicPlaylist], Inr r)
      | Next results \<Rightarrow>
          ([UserPlaylist, Artist, Track, Album, PublicPlaylist],
           Inr (best_result_client results)))))))"

text \<open>
  The resolution order in the words of the specification, for comparison with the
  code: the lookups are taken in the order given; a lookup whose confidence exceeds
  0.8 ends the resolution with its result, the later ones unevaluated; one whose
  confidence exceeds 0.5 joins the candidates; after the last lookup the best
  candidate, or NOTHING_FOUND, is the result. A lookup that found nothing has no
  confidence (\<open>None\<close>). \<open>as_tuple\<close> writes such a result as the Python tuple.
\<close>

fun as_tuple :: "real option \<times> pyval \<Rightarrow> pytuple" where
  "as_tuple (None, d) = (PNone, d)"
| "as_tuple (Some c, d) = (PNum c, d)"

fun generic_query_spec ::
  "(lookup \<times> real option \<times> pyval) list \<Rightarrow> (real \<times> pyval) list \<Rightarrow> lookup list \<times> pytuple" where
  "generic_query_spec [] candidates = ([], best_result_client candidates)"
| "generic_query_spec ((k, None, d) # rest) candidates =
     (case generic_query_spec rest candidates of (ks, r) \<Rightarrow> (k # ks, r))"
| "generic_query_spec ((k, Some c, d) # rest) candidates =
     (if c > 0.8 then ([k], (PNum c, d))
      else if c > 0.5
      then (case generic_query_spec rest (candidates @ [(c, d)]) of (ks, r) \<Rightarrow> (k # ks, r))
      else (case generic_query_spec rest candidates of (ks, r) \<Rightarrow> (k # ks, r)))"

text \<open>
  \<^verbatim>\<open>src/skill_spotify/__init__.py\<close> lines 561-576:
  \<^verbatim>\<open>
  def query_show(self, podcast):
      """... Returns: Tuple with confidence and data or NOTHING_FOUND"""
      data = self.spotify.search(podcast, type='show')
      if data and data['shows']['items']:
          best = data['shows']['items'][0]['name'].lower()
          confidence = best_confidence(best, podcast)
          return (confidence, {'data': data, 'type': 'show'})
  \<close>
  There is no \<^verbatim>\<open>else\<close>: when the condition fails the function ends without a
  \<^verbatim>\<open>return\<close> and its value is \<^verbatim>\<open>None\<close>, which is \<open>None\<close> below.
\<close>

definition query_show :: "(string \<Rightarrow> string \<Rightarrow> item list option) \<Rightarrow> string \<Rightarrow> error + pytuple option" where
  "query_show search podcast =
     (case search podcast ''show'' of
        Some (b # bs) \<Rightarrow>
          (let best = str_lower (item_name b)
           in case best_confidence_skill best podcast of
                Inl e \<Rightarrow> Inl e
              | Inr confidence \<Rightarrow>
                  Inr (Some (PNum confidence,
                             PDict \<lparr>p_data = Response (b # bs), p_name = None, p_type = ''show''\<rparr>)))
      | _ \<Rightarrow> Inr None)"

section \<open>The cached collections\<close>

record device =
  dev_id :: string
  dev_name :: string
  dev_is_active :: bool

text \<open>
  The fields the three caches use. \<open>connected\<close> is the truth value of
  \<^verbatim>\<open>self.spotify\<close>; a cache field is \<open>None\<close> until its first fetch, as the
  constructors set it, and the timestamps start at 0.
\<close>

record client_state =
  connected :: bool
  playlists_cache :: "(string \<times> item) list option"
  playlists_fetched :: real
  device_list :: "device list option"
  devices_fetched :: real
  saved_tracks :: "item list option"
  saved_tracks_fetched :: real

text \<open>
  \<^verbatim>\<open>src/spotify.py\<close> lines 142-151 (and \<^verbatim>\<open>src/skill_spotify/__init__.py\<close> lines
  671-680, which calls \<^verbatim>\<open>self.spotify.get_devices()\<close> instead):
  \<^verbatim>\<open>
  if not self.spotify:
      return []  # No connection, no devices
  now = time.time()
  if not self.__device_list or (now - self.__devices_fetched > 60):
      self.__device_list = self.spotify.devices().get('devices', [])
      self.__devices_fetched = now
  return self.__device_list
  \<close>
  \<open>resp\<close> is what the backend answers if it is asked, \<open>now\<close> the clock. The result
  is the value returned, the new state and the number of backend calls made.
\<close>

definition devices :: "device list \<Rightarrow> real \<Rightarrow> client_state \<Rightarrow> device list \<times> client_state \<times> nat" where
  "devices resp now s =
     (if \<not> connected s then ([], s, 0)
      else if (case device_list s of None \<Rightarrow> True | Some ds \<Rightarrow> ds = [])
              \<or> now - devices_fetched s > 60
      then (resp, s\<lparr>device_list := Some resp, devices_fetched := now\<rparr>, 1)
      else ((case device_list s of None \<Rightarrow> [] | Some ds \<Rightarrow> ds), s, 0))"

text \<open>
  \<^verbatim>\<open>src/spotify.py\<close> lines 153-165 (the same text stands at
  \<^verbatim>\<open>src/skill_spotify/spotify.py\<close> lines 327-339 and
  \<^verbatim>\<open>src/skill_spotify/__init__.py\<close> lines 637-649):
  \<^verbatim>\<open>
  if not self.spotify:
      return []  # No connection, no playlists
  now = time.time()
  if not self._playlists or (now - self.__playlists_fetched > 5 * 60):
      self._playlists = {}
      playlists = self.spotify.current_user_playlists().get('items', [])
      for p in playlists:
          self._playlists[p['name'].lower()] = p
      self.__playlists_fetched = now
  return self._playlists
  \<close>
  The dictionary is an association list in insertion order.
\<close>

definition playlists :: "item list \<Rightarrow> real \<Rightarrow> client_state \<Rightarrow> (string \<times> item) list \<times> client_state \<times> nat" where
  "playlists resp now s =
     (if \<not> connected s then ([], s, 0)
      else if (case playlists_cache s of None \<Rightarrow> True | Some d \<Rightarrow> d = [])
              \<or> now - playlists_fetched s > 5 * 60
      then (let d = foldl (\<lambda>m p. AList.update (str_lower (item_name p)) p m) [] resp
            in (d, s\<lparr>playlists_cache := Some d, playlists_fetched := now\<rparr>, 1))
      else ((case playlists_cache s of None \<Rightarrow> [] | Some d \<Rightarrow> d), s, 0))"

text \<open>
  The paging loop of \<^verbatim>\<open>refresh_saved_tracks\<close>
  (\<^verbatim>\<open>src/skill_spotify/__init__.py\<close> lines 658-666):
  \<^verbatim>\<open>
  saved_tracks = []
  offset = 0
  while True:
      batch = self.spotify.current_user_saved_tracks(50, offset)
      for item in batch.get('items', []):
          saved_tracks.append(item['track'])
      offset += 50
      if not batch['next']:
          break
  \<close>
  \<open>pages offset\<close> is the batch the backend returns for an offset: its tracks and
  whether it names a next page. A backend that always names one keeps the loop
  running: the value \<open>None\<close>.
\<close>

partial_function (option) saved_tracks_loop ::
  "(nat \<Rightarrow> item list \<times> bool) \<Rightarrow> nat \<Rightarrow> item list \<Rightarrow> nat \<Rightarrow> (item list \<times> nat) option" where
  "saved_tracks_loop pages offset acc calls =
     (case pages offset of
        (tracks, has_next) \<Rightarrow>
          if \<not> has_next then Some (acc @ tracks, calls + 1)
          else saved_tracks_loop pages (offset + 50) (acc @ tracks) (calls + 1))"

text \<open>
  \<^verbatim>\<open>src/skill_spotify/__init__.py\<close> lines 651-669:
  \<^verbatim>\<open>
  def refresh_saved_tracks(self):
      """Saved tracks are cached for 4 hours."""
      if not self.spotify:
          return []
      now = time.time()
      if (not self.saved_tracks or
              (now - self.__saved_tracks_fetched > 4 * 60 * 60)):
          ... the loop ...
          self.saved_tracks = saved_tracks
          self.__saved_tracks_fetched = now
  \<close>
  The method returns \<^verbatim>\<open>[]\<close> without a connection and nothing (\<^verbatim>\<open>None\<close>)
  otherwise; the first component is that value, \<open>Some []\<close> or \<open>None\<close>.
\<close>

definition refresh_saved_tracks ::
  "(nat \<Rightarrow> item list \<times> bool) \<Rightarrow> real \<Rightarrow> client_state
     \<Rightarrow> (item list option \<times> client_state \<times> nat) option" where
  "refresh_saved_tracks pages now s =
     (if \<not> connected s then Some (Some [], s, 0)
      else if (case saved_tracks s of None \<Rightarrow> True | Some ts \<Rightarrow> ts = [])
              \<or> now - saved_tracks_fetched s > 4 * 60 * 60
      then (case saved_tracks_loop pages 0 [] 0 of
              None \<Rightarrow> None
            | Some (ts, calls) \<Rightarrow>
                Some (None, s\<lparr>saved_tracks := Some ts, saved_tracks_fetched := now\<rparr>, calls))
      else Some (None, s, 0))"

section \<open>Example inputs\<close>

definition example_device :: device where
  "example_device = \<lparr>dev_id = ''d1'', dev_name = ''kitchen'', dev_is_active = True\<rparr>"

definition example_track :: item where
  "example_track =
     \<lparr>item_name = ''hello'', item_popularity = 10, item_artists = [''adele''],
      item_uri = ''spotify:track:1''\<rparr>"

text \<open>A connected client whose last fetches, at time 100, all stored empty collections.\<close>

definition empty_cache_state :: client_state where
  "empty_cache_state =
     \<lparr>connected = True, playlists_cache = Some [], playlists_fetched = 100,
      device_list = Some [], devices_fetched = 100,
      saved_tracks = Some [], saved_tracks_fetched = 100\<rparr>"

text \<open>A connected client whose last fetches, at time 100, stored one entry each.\<close>

definition warm_cache_state :: client_state where
  "warm_cache_state =
     \<lparr>connected = True, playlists_cache = Some [(''hello'', example_track)],
      playlists_fetched = 100,
      device_list = Some [example_device], devices_fetched = 100,
      saved_tracks = Some [example_track], saved_tracks_fetched = 100\<rparr>"

text \<open>A backend whose saved tracks fit one page.\<close>

definition single_page :: "nat \<Rightarrow> item list \<times> bool" where
  "single_page offset = ([example_track], False)"

text \<open>A backend that finds nothing, and one that finds one track for every query.\<close>

definition empty_backend :: "string \<Rightarrow> string \<Rightarrow> item list option" where
  "empty_backend q kind = Some []"

definition hello_backend :: "string \<Rightarrow> string \<Rightarrow> item list option" where
  "hello_backend q kind = Some [example_track]"

text \<open>Two tracks whose titles differ in one letter; the second is the more popular.\<close>

definition world_track :: item where
  "world_track =
     \<lparr>item_name = ''hello my world'', item_popularity = 10, item_artists = [''adele''],
      item_uri = ''spotify:track:2''\<rparr>"

definition worlds_track :: item where
  "worlds_track =
     \<lparr>item_name = ''hello my worlds'', item_popularity = 90, item_artists = [''adele''],
      item_uri = ''spotify:track:3''\<rparr>"

definition world_backend :: "string \<Rightarrow> string \<Rightarrow> item list option" where
  "world_backend q kind = Some [world_track, worlds_track]"

text \<open>
  Similarity functions with the values the examples need: 1 for identical strings,
  0.93 for the title that differs in one letter, 0 otherwise.
\<close>

definition exact_match :: "string \<Rightarrow> string \<Rightarrow> real" where
  "exact_match a b = (if a = b then 1 else 0)"

definition example_fuzzy_match :: "strategy \<Rightarrow> string \<Rightarrow> string \<Rightarrow> real" where
  "example_fuzzy_match strat a b =
     (if a = b then 1
      else if strat = DAMERAU_LEVENSHTEIN_SIMILARITY \<and> a = ''hello my worlds'' then 0.93
      else 0)"

text \<open>A later stage of \<^verbatim>\<open>match_query_phrase\<close> that always finds an album.\<close>

definition example_album_result :: pytuple where
  "example_album_result =
     (PNum 0.9, PDict \<lparr>p_data = Response [example_track], p_name = None, p_type = ''album''\<rparr>)"

definition example_stage :: "string \<Rightarrow> real \<Rightarrow> error + pytuple" where
  "example_stage phrase bonus = Inr example_album_result"

text \<open>Lookups that find nothing, and one that finds an artist at confidence 0.6.\<close>

definition nothing_lookup :: "string \<Rightarrow> error + pytuple" where
  "nothing_lookup phrase = Inr NOTHING_FOUND_client"

definition nothing_stage :: "string \<Rightarrow> real \<Rightarrow> error + pytuple" where
  "nothing_stage phrase bonus = Inr NOTHING_FOUND_client"

definition weak_artist_stage :: "string \<Rightarrow> real \<Rightarrow> error + pytuple" where
  "weak_artist_stage phrase bonus =
     Inr (PNum 0.6, PDict \<lparr>p_data = Response [example_track], p_name = None, p_type = ''artist''\<rparr>)"

text \<open>A \<^verbatim>\<open>match_one\<close> that always picks the key hello at confidence 0.9.\<close>

definition example_match_one :: "string \<Rightarrow> (string \<times> item) list \<Rightarrow> pyval \<times> real" where
  "example_match_one q choices = (PStr ''hello'', 0.9)"

text \<open>
  A backend whose saved tracks come in two batches, and one that names a next
  batch for ever.
\<close>

definition two_pages :: "nat \<Rightarrow> item list \<times> bool" where
  "two_pages offset = (if offset = 0 then ([example_track], True) else ([world_track], False))"

definition endless_pages :: "nat \<Rightarrow> item list \<times> bool" where
  "endless_pages offset = ([], True)"

section \<open>Properties\<close>

subsection \<open>Sorting helpers\<close>

lemma last_filter_self: "xs \<noteq> [] \<Longrightarrow> P (last xs) \<Longrightarrow> last (filter P xs) = last xs"
  by (induction xs rule: rev_induct) auto

lemma sorted_last_max: "sorted (map f ys) \<Longrightarrow> y \<in> set ys \<Longrightarrow> f y \<le> f (last ys)"
  by (induction ys) (auto split: if_splits)

lemma last_sort_key_rev:
  fixes f :: "'a \<Rightarrow> real"
  assumes "xs \<noteq> []"
  shows "last (sort_key f (rev xs)) = hd (filter (\<lambda>y. f y = f (last (sort_key f (rev xs)))) xs)"
proof -
  let ?ys = "sort_key f (rev xs)"
  let ?m = "f (last ?ys)"
  have ne: "?ys \<noteq> []" using assms by (metis length_0_conv length_sort length_rev)
  have "last ?ys = last (filter (\<lambda>y. f y = ?m) ?ys)"
    using last_filter_self[OF ne, of "\<lambda>y. f y = ?m"] by simp
  also have "filter (\<lambda>y. f y = ?m) ?ys = filter (\<lambda>y. f y = ?m) (rev xs)"
    by (rule sort_key_stable)
  also have "\<dots> = rev (filter (\<lambda>y. f y = ?m) xs)" by (simp add: rev_filter)
  also have "last \<dots> = hd (filter (\<lambda>y. f y = ?m) xs)"
    by (simp add: last_rev)
  finally show ?thesis .
qed

lemma hd_filter_index:
  assumes "filter P xs \<noteq> []"
  shows "\<exists>i < length xs. xs ! i = hd (filter P xs) \<and> P (xs ! i) \<and> (\<forall>j < i. \<not> P (xs ! j))"
  using assms
proof (induction xs)
  case Nil
  then show ?case by simp
next
  case (Cons x xs)
  show ?case
  proof (cases "P x")
    case True
    then show ?thesis by (intro exI[of _ 0]) simp
  next
    case False
    with Cons obtain i where i: "i < length xs" "xs ! i = hd (filter P xs)" "P (xs ! i)"
      "\<forall>j < i. \<not> P (xs ! j)" by auto
    have "\<forall>j < Suc i. \<not> P ((x # xs) ! j)"
      using False i(4) by (auto simp: less_Suc_eq_0_disj)
    with i False show ?thesis by (intro exI[of _ "Suc i"]) simp
  qed
qed

lemma last_sort_key_rev_index:
  fixes f :: "'a \<Rightarrow> real"
  assumes "xs \<noteq> []"
  shows "\<exists>i < length xs. xs ! i = last (sort_key f (rev xs))
            \<and> (\<forall>j < length xs. f (xs ! j) \<le> f (xs ! i))
            \<and> (\<forall>j < i. f (xs ! j) < f (xs ! i))"
proof -
  let ?ys = "sort_key f (rev xs)"
  let ?w = "last ?ys"
  have ne: "?ys \<noteq> []" using assms by (metis length_0_conv length_sort length_rev)
  have mx: "f y \<le> f ?w" if "y \<in> set xs" for y
    using sorted_last_max[of f ?ys y] that by simp
  have "?w \<in> set ?ys" using ne by (rule last_in_set)
  then have "?w \<in> set xs" by simp
  then have "filter (\<lambda>y. f y = f ?w) xs \<noteq> []"
    by (auto simp: filter_empty_conv)
  from hd_filter_index[OF this] obtain i where i: "i < length xs"
    "xs ! i = hd (filter (\<lambda>y. f y = f ?w) xs)" "f (xs ! i) = f ?w"
    "\<forall>j < i. f (xs ! j) \<noteq> f ?w" by blast
  have eq: "xs ! i = ?w" using i(2) last_sort_key_rev[OF assms, of f] by simp
  have "\<forall>j < length xs. f (xs ! j) \<le> f (xs ! i)"
    using mx eq by (simp)
  moreover have "\<forall>j < i. f (xs ! j) < f (xs ! i)"
  proof (intro allI impI)
    fix j assume "j < i"
    then have "f (xs ! j) \<noteq> f ?w" "f (xs ! j) \<le> f ?w"
      using i(1,4) mx by (auto)
    then show "f (xs ! j) < f (xs ! i)" using eq by simp
  qed
  ultimately show ?thesis using i(1) eq by blast
qed

subsection \<open>best_result\<close>

text \<open>
  Claim C9. On the empty list \<open>best_result\<close> returns NOTHING_FOUND. On a non-empty
  list of (confidence, data) tuples it returns the tuple at some index \<open>i\<close> whose
  confidence no tuple of the list exceeds and which every tuple before \<open>i\<close> stays
  strictly below: the maximum confidence, and among ties the earliest tuple.
  Both copies (\<^verbatim>\<open>src/spotify.py\<close> and \<^verbatim>\<open>src/skill_spotify/spotify.py\<close>) agree.
\<close>

theorem best_result_maximum_earliest:
  "(results = [] \<longrightarrow>
      best_result_ocp results = NOTHING_FOUND_ocp \<and>
      best_result_client results = NOTHING_FOUND_client) \<and>
   (results \<noteq> [] \<longrightarrow>
      (\<exists>i c d. i < length results \<and> results ! i = (c, d) \<and>
         best_result_ocp results = (PNum c, d) \<and>
         best_result_client results = (PNum c, d) \<and>
         (\<forall>j < length results. fst (results ! j) \<le> c) \<and>
         (\<forall>j < i. fst (results ! j) < c)))"
proof (intro conjI impI)
  assume ne: "results \<noteq> []"
  from last_sort_key_rev_index[OF ne, of fst] obtain i where i: "i < length results"
    "results ! i = last (sort_key fst (rev results))"
    "\<forall>j < length results. fst (results ! j) \<le> fst (results ! i)"
    "\<forall>j < i. fst (results ! j) < fst (results ! i)" by blast
  obtain c d where cd: "results ! i = (c, d)" by (cases "results ! i")
  have lst: "last (sort_key fst (rev results)) = (c, d)" using i(2) cd by simp
  have "best_result_ocp results = (PNum c, d)" "best_result_client results = (PNum c, d)"
    using ne by (simp_all add: best_result_ocp_def best_result_client_def lst)
  moreover have "\<forall>j < length results. fst (results ! j) \<le> c" using i(3) cd by simp
  moreover have "\<forall>j < i. fst (results ! j) < c" using i(4) cd by simp
  ultimately show "\<exists>i c d. i < length results \<and> results ! i = (c, d) \<and>
         best_result_ocp results = (PNum c, d) \<and>
         best_result_client results = (PNum c, d) \<and>
         (\<forall>j < length results. fst (results ! j) \<le> c) \<and>
         (\<forall>j < i. fst (results ! j) < c)"
    using i(1) cd by blast
qed (simp_all add: best_result_ocp_def best_result_client_def)

theorem best_result_maximum_earliest_witness:
  "[(0.6, PStr ''a''), (0.7, PStr ''b''), (0.7, PStr ''c'')] \<noteq> ([] :: (real \<times> pyval) list) \<and>
   best_result_client [(0.6, PStr ''a''), (0.7, PStr ''b''), (0.7, PStr ''c'')] = (PNum 0.7, PStr ''b'') \<and>
   best_result_ocp [(60, PStr ''a''), (70, PStr ''b''), (70, PStr ''c'')] = (PNum 70, PStr ''b'')"
proof -
  let ?rs = "[(0.6, PStr ''a''), (0.7, PStr ''b''), (0.7, PStr ''c'')] :: (real \<times> pyval) list"
  let ?qs = "[(60, PStr ''a''), (70, PStr ''b''), (70, PStr ''c'')] :: (real \<times> pyval) list"
  have "\<exists>i c d. i < length ?rs \<and> ?rs ! i = (c, d) \<and>
         best_result_ocp ?rs = (PNum c, d) \<and>
         best_result_client ?rs = (PNum c, d) \<and>
         (\<forall>j < length ?rs. fst (?rs ! j) \<le> c) \<and>
         (\<forall>j < i. fst (?rs ! j) < c)"
    using best_result_maximum_earliest[of ?rs] by simp
  then obtain i c d where h: "i < length ?rs" "?rs ! i = (c, d)"
    "best_result_client ?rs = (PNum c, d)"
    "\<forall>j < length ?rs. fst (?rs ! j) \<le> c" "\<forall>j < i. fst (?rs ! j) < c" by blast
  have "i = 0 \<or> i = 1 \<or> i = 2" using h(1) by auto
  moreover have "i \<noteq> 0" using h(2) h(4)[rule_format, of 1] by (cases "i = 0") auto
  moreover have "i \<noteq> 2" using h(2) h(5)[rule_format, of 1] by (cases "i = 2") auto
  ultimately have "i = 1" by blast
  then have a: "best_result_client ?rs = (PNum 0.7, PStr ''b'')" using h(2,3) by auto
  have "\<exists>i c d. i < length ?qs \<and> ?qs ! i = (c, d) \<and>
         best_result_ocp ?qs = (PNum c, d) \<and>
         best_result_client ?qs = (PNum c, d) \<and>
         (\<forall>j < length ?qs. fst (?qs ! j) \<le> c) \<and>
         (\<forall>j < i. fst (?qs ! j) < c)"
    using best_result_maximum_earliest[of ?qs] by simp
  then obtain i c d where g: "i < length ?qs" "?qs ! i = (c, d)"
    "best_result_ocp ?qs = (PNum c, d)"
    "\<forall>j < length ?qs. fst (?qs ! j) \<le> c" "\<forall>j < i. fst (?qs ! j) < c" by blast
  have "i = 0 \<or> i = 1 \<or> i = 2" using g(1) by auto
  moreover have "i \<noteq> 0" using g(2) g(4)[rule_format, of 1] by (cases "i = 0") auto
  moreover have "i \<noteq> 2" using g(2) g(5)[rule_format, of 1] by (cases "i = 2") auto
  ultimately have "i = 1" by blast
  then have b: "best_result_ocp ?qs = (PNum 70, PStr ''b'')" using g(2,3) by auto
  show ?thesis using a b by simp
qed

subsection \<open>The cached collections\<close>

lemma saved_tracks_loop_ends:
  "\<not> snd (pages (offset + 50 * n)) \<Longrightarrow> (\<forall>k<n. snd (pages (offset + 50 * k))) \<Longrightarrow>
   saved_tracks_loop pages offset acc calls
     = Some (acc @ concat (map (\<lambda>k. fst (pages (offset + 50 * k))) [0..<Suc n]), calls + Suc n)"
proof (induction n arbitrary: offset acc calls)
  case 0
  then show ?case
    by (subst saved_tracks_loop.simps) (cases "pages offset", simp)
next
  case (Suc n)
  have h: "snd (pages offset)" using Suc.prems(2)[rule_format, of 0] by simp
  have a: "\<not> snd (pages (offset + 50 + 50 * n))" using Suc.prems(1) by (simp add: algebra_simps)
  have b: "\<forall>k<n. snd (pages (offset + 50 + 50 * k))"
  proof (intro allI impI)
    fix k assume "k < n"
    then show "snd (pages (offset + 50 + 50 * k))"
      using Suc.prems(2)[rule_format, of "Suc k"] by (simp add: algebra_simps)
  qed
  have s: "map (\<lambda>k. fst (pages (offset + 50 * k))) [0..<Suc (Suc n)]
      = fst (pages offset) # map (\<lambda>k. fst (pages (offset + 50 + 50 * k))) [0..<Suc n]"
  proof -
    have "[0..<Suc (Suc n)] = 0 # map Suc [0..<Suc n]"
      by (metis map_Suc_upt upt_conv_Cons zero_less_Suc)
    then show ?thesis by (simp add: comp_def algebra_simps del: upt_Suc)
  qed
  show ?case
    apply (subst saved_tracks_loop.simps)
    apply (cases "pages offset")
    using h Suc.IH[OF a b, of "acc @ fst (pages offset)" "calls + 1"] s
    apply (simp del: upt_Suc)
    done
qed

lemma saved_tracks_loop_some_ends:
  assumes "saved_tracks_loop pages offset acc calls = Some y"
  shows "\<exists>k. \<not> snd (pages (offset + 50 * k))"
proof (rule saved_tracks_loop.raw_induct[where
         P = "\<lambda>pages offset acc calls y. \<exists>k. \<not> snd (pages (offset + 50 * k))", OF _ assms])
  fix f :: "(nat \<Rightarrow> item list \<times> bool) \<Rightarrow> nat \<Rightarrow> item list \<Rightarrow> nat \<Rightarrow> (item list \<times> nat) option"
  fix pages offset acc calls y
  assume ih: "\<And>pages offset acc calls y. f pages offset acc calls = Some y
                \<Longrightarrow> \<exists>k. \<not> snd (pages (offset + 50 * k))"
    and step: "(case pages offset of
                  (tracks, has_next) \<Rightarrow>
                    if \<not> has_next then Some (acc @ tracks, calls + 1)
                    else f pages (offset + 50) (acc @ tracks) (calls + 1)) = Some y"
  show "\<exists>k. \<not> snd (pages (offset + 50 * k))"
  proof (cases "snd (pages offset)")
    case False
    then have "\<not> snd (pages (offset + 50 * 0))" by simp
    then show ?thesis by blast
  next
    case True
    then have "f pages (offset + 50) (acc @ fst (pages offset)) (calls + 1) = Some y"
      using step by (cases "pages offset") auto
    from ih[OF this] obtain k where "\<not> snd (pages (offset + 50 + 50 * k))" by blast
    then have "\<not> snd (pages (offset + 50 * Suc k))" by (simp add: algebra_simps)
    then show ?thesis by blast
  qed
qed

lemma saved_tracks_loop_never_ends:
  "(\<forall>k. snd (pages (offset + 50 * k))) \<Longrightarrow> saved_tracks_loop pages offset acc calls = None"
  using saved_tracks_loop_some_ends[of pages offset acc calls] by (cases "saved_tracks_loop pages offset acc calls") auto

lemma remdups_drop_mid:
  "k \<in> set ys \<Longrightarrow> remdups (xs @ k # ys) = remdups (xs @ ys)"
  by (induction xs) auto

lemma playlists_dict:
  fixes acc :: "(string \<times> item) list"
  assumes "distinct (map fst acc)"
  shows "distinct (map fst (foldl (\<lambda>m p. AList.update (str_lower (item_name p)) p m) acc xs)) \<and>
     map_of (foldl (\<lambda>m p. AList.update (str_lower (item_name p)) p m) acc xs)
       = map_of (rev (map (\<lambda>p. (str_lower (item_name p), p)) xs) @ acc) \<and>
     map fst (foldl (\<lambda>m p. AList.update (str_lower (item_name p)) p m) acc xs)
       = rev (remdups (rev (map fst acc @ map (\<lambda>p. str_lower (item_name p)) xs)))"
  using assms
proof (induction xs arbitrary: acc)
  case Nil
  then show ?case by (simp add: distinct_remdups_id)
next
  case (Cons x xs)
  let ?k = "str_lower (item_name x)"
  let ?acc = "AList.update ?k x acc"
  have d: "distinct (map fst ?acc)" using Cons.prems by (rule distinct_update)
  note ih = Cons.IH[OF d]
  have m: "map_of (rev (map (\<lambda>p. (str_lower (item_name p), p)) xs) @ ?acc)
      = map_of (rev (map (\<lambda>p. (str_lower (item_name p), p)) (x # xs)) @ acc)"
    by (simp add: update_conv' map_add_def fun_eq_iff split: option.splits)
  have k: "rev (remdups (rev (map fst ?acc @ map (\<lambda>p. str_lower (item_name p)) xs)))
      = rev (remdups (rev (map fst acc @ map (\<lambda>p. str_lower (item_name p)) (x # xs))))"
  proof (cases "?k \<in> fst ` set acc")
    case True
    then have "?k \<in> set (rev (map fst acc))" by simp
    from remdups_drop_mid[OF this, of "rev (map (\<lambda>p. str_lower (item_name p)) xs)"]
    show ?thesis using True by (simp add: update_keys)
  next
    case False
    then show ?thesis by (simp add: update_keys)
  qed
  show ?case using ih m k by simp
qed

text \<open>
  Claim C7, as the code has it. With a connection, each of the three caches
  (devices 60 s, playlists 300 s, saved tracks 14400 s) is reused when the cached
  value is non-empty and \<open>now - fetched\<close> is at most the TTL: the cached value comes
  back, the state is unchanged and the backend is not called. When the cached value
  is missing or empty, or \<open>now - fetched\<close> exceeds the TTL, the backend is called and
  its result is stored with the current time. \<open>devices\<close> returns and stores the
  answer of its one call. \<open>playlists\<close> returns and stores, after its one call, the
  dictionary that maps each lowercased name of the answer to the last playlist of
  that name, its keys in the order of their first occurrence. \<open>refresh_saved_tracks\<close>
  asks for batch after batch, at the offsets 0, 50, 100, ..., up to the first batch
  that names no next one: if that is batch \<open>n\<close> it makes \<open>n + 1\<close> calls, stores the
  tracks of these batches in order and returns nothing; if every batch names a next
  one it never returns.
\<close>

theorem cache_ttl_nonempty:
  assumes "connected s"
  shows
   "(device_list s = Some ds \<and> ds \<noteq> [] \<and> now - devices_fetched s \<le> 60
       \<longrightarrow> devices dresp now s = (ds, s, 0)) \<and>
    ((device_list s = None \<or> device_list s = Some [] \<or> now - devices_fetched s > 60)
       \<longrightarrow> devices dresp now s = (dresp, s\<lparr>device_list := Some dresp, devices_fetched := now\<rparr>, 1)) \<and>
    (playlists_cache s = Some pl \<and> pl \<noteq> [] \<and> now - playlists_fetched s \<le> 300
       \<longrightarrow> playlists presp now s = (pl, s, 0)) \<and>
    ((playlists_cache s = None \<or> playlists_cache s = Some [] \<or> now - playlists_fetched s > 300)
       \<longrightarrow> (\<exists>d. playlists presp now s = (d, s\<lparr>playlists_cache := Some d, playlists_fetched := now\<rparr>, 1)
              \<and> distinct (map fst d)
              \<and> map_of d = map_of (rev (map (\<lambda>p. (str_lower (item_name p), p)) presp))
              \<and> map fst d = rev (remdups (rev (map (\<lambda>p. str_lower (item_name p)) presp))))) \<and>
    (saved_tracks s = Some ts \<and> ts \<noteq> [] \<and> now - saved_tracks_fetched s \<le> 14400
       \<longrightarrow> refresh_saved_tracks pages now s = Some (None, s, 0)) \<and>
    ((saved_tracks s = None \<or> saved_tracks s = Some [] \<or> now - saved_tracks_fetched s > 14400)
       \<and> \<not> snd (pages (50 * n)) \<and> (\<forall>k<n. snd (pages (50 * k)))
       \<longrightarrow> refresh_saved_tracks pages now s
             = Some (None,
                     s\<lparr>saved_tracks := Some (concat (map (\<lambda>k. fst (pages (50 * k))) [0..<Suc n])),
                       saved_tracks_fetched := now\<rparr>,
                     Suc n)) \<and>
    ((saved_tracks s = None \<or> saved_tracks s = Some [] \<or> now - saved_tracks_fetched s > 14400)
       \<and> (\<forall>k. snd (pages (50 * k)))
       \<longrightarrow> refresh_saved_tracks pages now s = None)"
proof -
  have dev: "(device_list s = Some ds \<and> ds \<noteq> [] \<and> now - devices_fetched s \<le> 60
       \<longrightarrow> devices dresp now s = (ds, s, 0)) \<and>
    ((device_list s = None \<or> device_list s = Some [] \<or> now - devices_fetched s > 60)
       \<longrightarrow> devices dresp now s = (dresp, s\<lparr>device_list := Some dresp, devices_fetched := now\<rparr>, 1))"
    using assms by (auto simp: devices_def split: option.splits)
  have hit: "playlists_cache s = Some pl \<and> pl \<noteq> [] \<and> now - playlists_fetched s \<le> 300
       \<longrightarrow> playlists presp now s = (pl, s, 0)"
    using assms by (auto simp: playlists_def Let_def split: option.splits)
  let ?d = "foldl (\<lambda>m p. AList.update (str_lower (item_name p)) p m) [] presp"
  have dict: "distinct (map fst ?d) \<and>
      map_of ?d = map_of (rev (map (\<lambda>p. (str_lower (item_name p), p)) presp)) \<and>
      map fst ?d = rev (remdups (rev (map (\<lambda>p. str_lower (item_name p)) presp)))"
    using playlists_dict[of "[]" presp] by simp
  have miss: "(playlists_cache s = None \<or> playlists_cache s = Some [] \<or> now - playlists_fetched s > 300)
       \<longrightarrow> playlists presp now s = (?d, s\<lparr>playlists_cache := Some ?d, playlists_fetched := now\<rparr>, 1)"
    using assms by (auto simp: playlists_def Let_def split: option.splits)
  have pl: "(playlists_cache s = None \<or> playlists_cache s = Some [] \<or> now - playlists_fetched s > 300)
       \<longrightarrow> (\<exists>d. playlists presp now s = (d, s\<lparr>playlists_cache := Some d, playlists_fetched := now\<rparr>, 1)
              \<and> distinct (map fst d)
              \<and> map_of d = map_of (rev (map (\<lambda>p. (str_lower (item_name p), p)) presp))
              \<and> map fst d = rev (remdups (rev (map (\<lambda>p. str_lower (item_name p)) presp))))"
    using miss dict by blast
  have sv: "saved_tracks s = Some ts \<and> ts \<noteq> [] \<and> now - saved_tracks_fetched s \<le> 14400
       \<longrightarrow> refresh_saved_tracks pages now s = Some (None, s, 0)"
    using assms by (auto simp: refresh_saved_tracks_def split: option.splits)
  have loop: "saved_tracks_loop pages 0 [] 0
      = Some (concat (map (\<lambda>k. fst (pages (50 * k))) [0..<Suc n]), Suc n)"
    if "\<not> snd (pages (50 * n))" "\<forall>k<n. snd (pages (50 * k))"
    using saved_tracks_loop_ends[of pages 0 n "[]" 0] that by simp
  have sm: "(saved_tracks s = None \<or> saved_tracks s = Some [] \<or> now - saved_tracks_fetched s > 14400)
       \<and> \<not> snd (pages (50 * n)) \<and> (\<forall>k<n. snd (pages (50 * k)))
       \<longrightarrow> refresh_saved_tracks pages now s
             = Some (None,
                     s\<lparr>saved_tracks := Some (concat (map (\<lambda>k. fst (pages (50 * k))) [0..<Suc n])),
                       saved_tracks_fetched := now\<rparr>,
                     Suc n)"
    using assms loop by (auto simp: refresh_saved_tracks_def simp del: upt_Suc split: option.splits)
  have never: "saved_tracks_loop pages 0 [] 0 = None" if "\<forall>k. snd (pages (50 * k))"
    using saved_tracks_loop_never_ends[of pages 0 "[]" 0] that by simp
  have sn: "(saved_tracks s = None \<or> saved_tracks s = Some [] \<or> now - saved_tracks_fetched s > 14400)
       \<and> (\<forall>k. snd (pages (50 * k)))
       \<longrightarrow> refresh_saved_tracks pages now s = None"
    using assms never by (auto simp: refresh_saved_tracks_def split: option.splits)
  show ?thesis using dev hit pl sv sm sn by blast
qed

theorem cache_ttl_nonempty_witness:
  "connected warm_cache_state \<and>
   devices [] 130 warm_cache_state = ([example_device], warm_cache_state, 0) \<and>
   devices [] 161 warm_cache_state
     = ([], warm_cache_state\<lparr>device_list := Some [], devices_fetched := 161\<rparr>, 1) \<and>
   playlists [] 400 warm_cache_state = ([(''hello'', example_track)], warm_cache_state, 0) \<and>
   refresh_saved_tracks single_page 14500 warm_cache_state = Some (None, warm_cache_state, 0) \<and>
   refresh_saved_tracks two_pages 14501 warm_cache_state
     = Some (None,
             warm_cache_state\<lparr>saved_tracks := Some [example_track, world_track],
                               saved_tracks_fetched := 14501\<rparr>,
             2) \<and>
   refresh_saved_tracks endless_pages 14501 warm_cache_state = None"
proof -
  have c: "connected warm_cache_state" by (simp add: warm_cache_state_def)
  have "devices [] 130 warm_cache_state = ([example_device], warm_cache_state, 0)"
    using cache_ttl_nonempty[OF c, of "[example_device]" 130] by (simp add: warm_cache_state_def)
  moreover have "devices [] 161 warm_cache_state
     = ([], warm_cache_state\<lparr>device_list := Some [], devices_fetched := 161\<rparr>, 1)"
    using cache_ttl_nonempty[OF c, of _ 161] by (simp add: warm_cache_state_def)
  moreover have "playlists [] 400 warm_cache_state = ([(''hello'', example_track)], warm_cache_state, 0)"
    using cache_ttl_nonempty[OF c, of _ 400 _ "[(''hello'', example_track)]"]
    by (simp add: warm_cache_state_def)
  moreover have "refresh_saved_tracks single_page 14500 warm_cache_state = Some (None, warm_cache_state, 0)"
    using cache_ttl_nonempty[OF c, of _ 14500 _ _ _ "[example_track]"]
    by (simp add: warm_cache_state_def)
  moreover have "refresh_saved_tracks two_pages 14501 warm_cache_state
     = Some (None,
             warm_cache_state\<lparr>saved_tracks := Some [example_track, world_track],
                               saved_tracks_fetched := 14501\<rparr>,
             2)"
  proof -
    have p: "\<not> snd (two_pages (50 * 1))" "\<forall>k<1. snd (two_pages (50 * k))"
      by (simp_all add: two_pages_def)
    have m: "concat (map (\<lambda>k. fst (two_pages (50 * k))) [0..<Suc 1]) = [example_track, world_track]"
      by (simp add: two_pages_def)
    have t: "(14501 :: real) - saved_tracks_fetched warm_cache_state > 14400"
      by (simp add: warm_cache_state_def)
    show ?thesis
      using cache_ttl_nonempty[OF c, where now = 14501 and pages = two_pages and n = 1] p m t
      by simp
  qed
  moreover have "refresh_saved_tracks endless_pages 14501 warm_cache_state = None"
  proof -
    have p: "\<forall>k. snd (endless_pages (50 * k))" by (simp add: endless_pages_def)
    have t: "(14501 :: real) - saved_tracks_fetched warm_cache_state > 14400"
      by (simp add: warm_cache_state_def)
    show ?thesis
      using cache_ttl_nonempty[OF c, where now = 14501 and pages = endless_pages] p t
      by simp
  qed
  ultimately show ?thesis using c by simp
qed

text \<open>
  Claim C7 with an empty cache: ten seconds after a fetch that stored an
  empty device list (or an empty playlist dictionary) the access calls the backend
  again and returns the new answer, not the cached value.
\<close>

theorem cache_ttl_empty_counterexample:
  "connected empty_cache_state \<and>
   device_list empty_cache_state = Some [] \<and>
   devices_fetched empty_cache_state = 100 \<and>
   (110 :: real) - 100 \<le> 60 \<and>
   devices [example_device] 110 empty_cache_state
     = ([example_device],
        empty_cache_state\<lparr>device_list := Some [example_device], devices_fetched := 110\<rparr>, 1) \<and>
   playlists_cache empty_cache_state = Some [] \<and>
   snd (snd (playlists [example_track] 110 empty_cache_state)) = 1"
  by (simp add: empty_cache_state_def devices_def playlists_def Let_def)

text \<open>
  Claim C10. With a connection, a cached empty device list or playlist dictionary
  makes the access fetch again at every time \<open>now\<close>; this holds in particular in
  the state a fetch of an empty collection leaves behind. The backend is left alone
  (0 calls) exactly when the cached value is non-empty and within its TTL.
\<close>

theorem empty_collection_refetched:
  assumes "connected s"
  shows
   "(device_list s = Some [] \<longrightarrow>
       devices dresp now s = (dresp, s\<lparr>device_list := Some dresp, devices_fetched := now\<rparr>, 1)) \<and>
    (playlists_cache s = Some [] \<longrightarrow> snd (snd (playlists presp now s)) = 1) \<and>
    (snd (snd (devices [] t s)) = 1 \<longrightarrow>
       snd (snd (devices dresp now (fst (snd (devices [] t s))))) = 1) \<and>
    (snd (snd (playlists [] t s)) = 1 \<longrightarrow>
       snd (snd (playlists presp now (fst (snd (playlists [] t s))))) = 1) \<and>
    ((snd (snd (devices dresp now s)) = 0)
       = (\<exists>ds. device_list s = Some ds \<and> ds \<noteq> [] \<and> now - devices_fetched s \<le> 60)) \<and>
    ((snd (snd (playlists presp now s)) = 0)
       = (\<exists>pl. playlists_cache s = Some pl \<and> pl \<noteq> [] \<and> now - playlists_fetched s \<le> 300))"
  using assms
  by (auto simp: devices_def playlists_def Let_def split: option.splits)

theorem empty_collection_refetched_witness:
  "connected empty_cache_state \<and> device_list empty_cache_state = Some [] \<and>
   devices [] 100 empty_cache_state
     = ([], empty_cache_state\<lparr>device_list := Some [], devices_fetched := 100\<rparr>, 1) \<and>
   snd (snd (playlists [] 100 empty_cache_state)) = 1"
proof -
  have c: "connected empty_cache_state" by (simp add: empty_cache_state_def)
  have d: "device_list empty_cache_state = Some []" "playlists_cache empty_cache_state = Some []"
    by (simp_all add: empty_cache_state_def)
  show ?thesis using empty_collection_refetched[OF c, of "[]" 100 "[]"] c d by simp
qed

subsection \<open>Strings of the examples\<close>

lemma re_sub_no_start:
  "\<forall>c \<in> set s. c \<noteq> CHR ''('' \<and> c \<noteq> CHR ''-'' \<Longrightarrow> re_sub_qualifier s = s"
  by (induction s) auto

lemma re_sub_paren:
  assumes "\<forall>c \<in> set t. c \<noteq> CHR ''('' \<and> c \<noteq> CHR ''-''" "w \<noteq> []" "CHR 0x0A \<notin> set w"
  shows "re_sub_qualifier (t @ ''('' @ w @ '')'') = t"
proof -
  have "last w \<noteq> CHR 0x0A" using assms(2,3) last_in_set[of w] by metis
  with assms show ?thesis
    by (induction t) (auto simp: paren_tail_def chomp_def nl_tail_def)
qed

lemma re_sub_dash:
  assumes "\<forall>c \<in> set t. c \<noteq> CHR ''('' \<and> c \<noteq> CHR ''-''" "w \<noteq> []" "CHR 0x0A \<notin> set w"
  shows "re_sub_qualifier (t @ ''-'' @ w) = t"
proof -
  have "last w \<noteq> CHR 0x0A" using assms(2,3) last_in_set[of w] by metis
  with assms show ?thesis
    by (induction t) (auto simp: dash_tail_def chomp_def nl_tail_def)
qed

lemma split_hello: "str_split by_word ''hello'' = [''hello'']"
  by (simp add: str_split_def by_word_def)

lemma split_heavy_metal: "str_split by_word ''heavy metal'' = [''heavy metal'']"
  by (simp add: str_split_def by_word_def)

lemma split_world: "str_split by_word ''hello my world'' = [''hello my world'']"
  by (simp add: str_split_def by_word_def)

lemma norm_hello:
  "str_lower ''hello'' = ''hello''" "re_sub_qualifier ''hello'' = ''hello''"
  "str_strip ''hello'' = ''hello''"
  by (simp_all add: str_lower_def lower_char_def re_sub_no_start str_strip_def is_space_def)

lemma norm_world:
  "str_lower ''hello my world'' = ''hello my world''"
  "re_sub_qualifier ''hello my world'' = ''hello my world''"
  "str_strip ''hello my world'' = ''hello my world''"
  "str_lower ''hello my worlds'' = ''hello my worlds''"
  "re_sub_qualifier ''hello my worlds'' = ''hello my worlds''"
  "str_strip ''hello my worlds'' = ''hello my worlds''"
  by (simp_all add: str_lower_def lower_char_def re_sub_no_start str_strip_def is_space_def)

lemma strip_empty: "str_strip [] = []" "str_strip ''   '' = []"
  by (simp_all add: str_strip_def is_space_def)

lemma lower_hello_nasty:
  "str_lower ''Hello Nasty (Deluxe Version/Remastered 2009)''
     = ''hello nasty '' @ ''('' @ ''deluxe version/remastered 2009'' @ '')''"
  by code_simp

lemma strip_hello_nasty: "str_strip ''hello nasty '' = ''hello nasty''"
  by (simp add: str_strip_def is_space_def)

subsection \<open>best_confidence\<close>

lemma py_int_mono: "x \<le> y \<Longrightarrow> py_int x \<le> py_int y"
  unfolding py_int_def
  by (auto intro: floor_mono ceiling_mono simp: not_le)
     (smt (verit) ceiling_le_zero zero_le_floor order_trans less_imp_le)

lemma py_int_max: "py_int (max a b * 100) = max (py_int (a * 100)) (py_int (b * 100))"
proof (cases "a \<le> b")
  case True
  then have "py_int (a * 100) \<le> py_int (b * 100)" by (intro py_int_mono) simp
  with True show ?thesis by (simp add: max_def)
next
  case False
  then have "py_int (b * 100) \<le> py_int (a * 100)" by (intro py_int_mono) simp
  with False show ?thesis by (simp add: max_def)
qed

text \<open>
  Claim C5. \<open>best_confidence\<close> is the maximum of the similarity of the lowercased
  title and the similarity of the lowercased title after the substitution and
  \<^verbatim>\<open>strip()\<close>, so it is never below the similarity of the lowercased title alone;
  \<^verbatim>\<open>src/spotify.py\<close> returns the same maximum as a whole percentage. The
  substitution removes a trailing parenthesized group or a trailing dash suffix:
  for a text \<open>t\<close> without parenthesis and dash and a non-empty one-line \<open>w\<close> it
  maps \<open>t(w)\<close> and \<open>t-w\<close> to \<open>t\<close> and leaves \<open>t\<close> alone.
\<close>

theorem best_confidence_is_maximum:
  "best_confidence_client fm title query
     = max (fm (str_lower title) query)
           (fm (str_strip (re_sub_qualifier (str_lower title))) query) \<and>
   fm (str_lower title) query \<le> best_confidence_client fm title query \<and>
   best_confidence_ocp fms title query
     = max (py_int (fms DAMERAU_LEVENSHTEIN_SIMILARITY (str_lower title) query * 100))
           (py_int (fms DAMERAU_LEVENSHTEIN_SIMILARITY
                      (str_strip (re_sub_qualifier (str_lower title))) query * 100)) \<and>
   py_int (fms DAMERAU_LEVENSHTEIN_SIMILARITY (str_lower title) query * 100)
     \<le> best_confidence_ocp fms title query \<and>
   ((\<forall>c \<in> set t. c \<noteq> CHR ''('' \<and> c \<noteq> CHR ''-'') \<and> w \<noteq> [] \<and> CHR 0x0A \<notin> set w \<longrightarrow>
      re_sub_qualifier (t @ ''('' @ w @ '')'') = t \<and>
      re_sub_qualifier (t @ ''-'' @ w) = t \<and>
      re_sub_qualifier t = t)"
  using re_sub_paren[of t w] re_sub_dash[of t w] re_sub_no_start[of t]
  by (simp add: best_confidence_client_def best_confidence_ocp_def Let_def py_int_max)

theorem best_confidence_is_maximum_witness:
  "str_strip (re_sub_qualifier (str_lower ''Hello Nasty (Deluxe Version/Remastered 2009)''))
     = ''hello nasty'' \<and>
   re_sub_qualifier ''jay-z'' = ''jay''"
proof -
  have a: "re_sub_qualifier (''hello nasty '' @ ''('' @ ''deluxe version/remastered 2009'' @ '')'')
        = ''hello nasty ''"
    using best_confidence_is_maximum[of _ _ _ _ "''hello nasty ''" "''deluxe version/remastered 2009''"]
    by simp
  have b: "re_sub_qualifier (''jay'' @ ''-'' @ ''z'') = ''jay''"
    using best_confidence_is_maximum[of _ _ _ _ "''jay''" "''z''"] by simp
  show ?thesis
    unfolding lower_hello_nasty a strip_hello_nasty using b by simp
qed

subsection \<open>continue_playback and match_query_phrase\<close>

lemma continue_playback_other_phrase:
  "str_strip phrase \<noteq> ''spotify'' \<Longrightarrow> continue_playback phrase bonus = NOTHING_FOUND_client"
  by (simp add: continue_playback_def)

lemma continue_playback_empty_phrase:
  "continue_playback [] bonus = NOTHING_FOUND_client \<and>
   continue_playback ''   '' bonus = NOTHING_FOUND_client"
  by (simp add: continue_playback_def strip_empty)

text \<open>
  Claim C4. When the phrase, after the marker substitution and \<^verbatim>\<open>strip()\<close>, is the
  word spotify, \<open>continue_playback\<close> answers (1.0, type continue) and
  \<open>match_query_phrase\<close> takes that answer before, and whatever, the specific and the
  generic query would return. It does not get as far as a response: the continue
  result holds \<^verbatim>\<open>'data': None\<close> and the response subscripts it, so with a connection
  the call raises TypeError. Without a connection a phrase that contains spotify
  raises UnboundLocalError, and any other phrase gives \<^verbatim>\<open>None\<close>. So on no state
  does such a phrase, the bare word spotify among them, come back as a continue
  result at level 100.
\<close>

theorem continue_playback_response_raises:
  assumes "str_strip (on_spotify_sub phrase0) = ''spotify''"
  shows
   "continue_playback (on_spotify_sub phrase0) bonus
      = (PNum 1, PDict \<lparr>p_data = NoData, p_name = None, p_type = ''continue''\<rparr>) \<and>
    match_query_phrase on_spotify_sub specific_query generic_query True phrase0 = Inl TypeError \<and>
    match_query_phrase on_spotify_sub specific_query generic_query False phrase0
      = (if str_contains ''spotify'' phrase0 then Inl UnboundLocalError else Inr None) \<and>
    (\<forall>r. match_query_phrase on_spotify_sub specific_query generic_query spotify phrase0
           \<noteq> Inr (Some r))"
proof -
  have c: "continue_playback (on_spotify_sub phrase0) b
      = (PNum 1, PDict \<lparr>p_data = NoData, p_name = None, p_type = ''continue''\<rparr>)" for b
    using assms by (simp add: continue_playback_def)
  have t: "match_query_phrase on_spotify_sub specific_query generic_query True phrase0 = Inl TypeError"
    by (simp add: match_query_phrase_def Let_def c)
  have f: "match_query_phrase on_spotify_sub specific_query generic_query False phrase0
      = (if str_contains ''spotify'' phrase0 then Inl UnboundLocalError else Inr None)"
    by (simp add: match_query_phrase_def)
  have "match_query_phrase on_spotify_sub specific_query generic_query spotify phrase0
          \<noteq> Inr (Some r)" for r
    using t f by (cases spotify) auto
  then show ?thesis using c t f by blast
qed

theorem continue_playback_response_raises_witness:
  "str_strip ((\<lambda>p. p) ''spotify'') = ''spotify'' \<and>
   continue_playback ''spotify'' 0.1
     = (PNum 1, PDict \<lparr>p_data = NoData, p_name = None, p_type = ''continue''\<rparr>) \<and>
   match_query_phrase (\<lambda>p. p) example_stage example_stage True ''spotify'' = Inl TypeError \<and>
   match_query_phrase (\<lambda>p. p) example_stage example_stage False ''spotify''
     = Inl UnboundLocalError"
proof -
  have h: "str_strip ((\<lambda>p. p) ''spotify'') = ''spotify''"
    by (simp add: str_strip_def is_space_def)
  have k: "str_contains ''spotify'' ''spotify''" by simp
  show ?thesis
    using continue_playback_response_raises[of "\<lambda>p. p" "''spotify''" "0.1" example_stage
        example_stage True] h k
    by simp
qed

subsection \<open>Empty search results\<close>

text \<open>
  Claim C6. When the search finds no show, \<open>query_show\<close> ends without a return
  statement: its value is \<^verbatim>\<open>None\<close>, not the tuple NOTHING_FOUND that
  \<open>query_artist\<close> returns for the same empty answer.
\<close>

theorem query_show_empty_result:
  "query_show empty_backend podcast = Inr None \<and>
   query_artist_client fuzzy_match empty_backend artist bonus = NOTHING_FOUND_client"
  by (simp add: query_show_def query_artist_client_def empty_backend_def)

subsection \<open>generic_query\<close>

text \<open>
  Claim C1. With no user playlists and a backend that finds no artist, track or
  album, \<open>generic_query\<close> of \<^verbatim>\<open>src/skill_spotify/spotify.py\<close> reaches the lookup
  of public playlists and ends in AttributeError; it does not return NOTHING_FOUND.
\<close>

theorem generic_query_client_attribute_error:
  "generic_query_client fuzzy_match match_one empty_backend [] ''heavy metal'' = Inl AttributeError"
  by (simp add: generic_query_client_def user_playlist_step_def get_best_user_playlist_client_def
      NOTHING_FOUND_client_def threshold_step_def and_then_def lookup_step_def
      query_artist_client_def query_song_client_def query_album_client_def empty_backend_def
      split_heavy_metal Let_def)

subsection \<open>query_song\<close>

text \<open>
  Claim C2. \<open>query_song\<close> of \<^verbatim>\<open>src/skill_spotify/spotify.py\<close> adds the bonus
  without a bound: a track whose title is the query, at similarity 1, comes back
  with confidence 1.1 when the bonus is 0.1.
\<close>

theorem query_song_client_unclamped:
  assumes "fuzzy_match ''hello'' ''hello'' = 1"
  shows "query_song_client fuzzy_match hello_backend ''hello'' 0.1
           = Inr (PNum 1.1, PDict \<lparr>p_data = Response [example_track], p_name = None, p_type = ''track''\<rparr>)"
  using assms
  by (simp add: query_song_client_def split_hello hello_backend_def example_track_def
      best_confidence_client_def norm_hello Let_def)

theorem query_song_client_unclamped_witness:
  "exact_match ''hello'' ''hello'' = 1 \<and>
   query_song_client exact_match hello_backend ''hello'' 0.1
     = Inr (PNum 1.1, PDict \<lparr>p_data = Response [example_track], p_name = None, p_type = ''track''\<rparr>) \<and>
   \<not> (1.1 \<le> (1 :: real))"
proof -
  have h: "exact_match ''hello'' ''hello'' = 1" by (simp add: exact_match_def)
  show ?thesis using query_song_client_unclamped[of exact_match] h by simp
qed

text \<open>
  Claim C3. \<open>query_song\<close> of \<^verbatim>\<open>src/spotify.py\<close> scores on the scale 0..100 and
  still subtracts 0.1 from the best score: of two tracks scored 100 and between 91
  and 99 only the first survives the filter and is returned, although the second
  is within ten points and the more popular one.
\<close>

theorem query_song_ocp_band_too_narrow:
  assumes "fuzzy_match DAMERAU_LEVENSHTEIN_SIMILARITY ''hello my world'' ''hello my world'' = 1"
      and "0.91 \<le> fuzzy_match DAMERAU_LEVENSHTEIN_SIMILARITY ''hello my worlds'' ''hello my world''"
      and "fuzzy_match DAMERAU_LEVENSHTEIN_SIMILARITY ''hello my worlds'' ''hello my world'' < 1"
      and "0 \<le> fuzzy_match TOKEN_SET_RATIO ''hello my world'' ''adele''"
  shows "query_song_ocp fuzzy_match world_backend ''hello my world''
           = Inr (PNum 100, PDict \<lparr>p_data = Response [world_track], p_name = None, p_type = ''track''\<rparr>) \<and>
         best_confidence_ocp fuzzy_match (item_name world_track) ''hello my world'' = 100 \<and>
         90 < best_confidence_ocp fuzzy_match (item_name worlds_track) ''hello my world'' \<and>
         best_confidence_ocp fuzzy_match (item_name worlds_track) ''hello my world'' < 100 \<and>
         item_popularity world_track < item_popularity worlds_track"
proof -
  let ?s = "fuzzy_match DAMERAU_LEVENSHTEIN_SIMILARITY ''hello my worlds'' ''hello my world''"
  let ?k = "best_confidence_ocp fuzzy_match ''hello my worlds'' ''hello my world''"
  have a: "best_confidence_ocp fuzzy_match ''hello my world'' ''hello my world'' = 100"
    using assms(1) by (simp add: best_confidence_ocp_def norm_world py_int_def)
  have k: "?k = \<lfloor>?s * 100\<rfloor>"
    using assms(2) by (simp add: best_confidence_ocp_def norm_world py_int_def)
  have "91 \<le> ?s * 100" using assms(2) by simp
  then have "91 \<le> \<lfloor>?s * 100\<rfloor>" by (simp add: le_floor_iff)
  then have b1: "90 < ?k" unfolding k by simp
  have b2: "?k < 100" unfolding k using assms(3) by (simp add: floor_less_iff)
  have c: "0 \<le> py_int (fuzzy_match TOKEN_SET_RATIO ''hello my world'' ''adele'' * 100)"
    using assms(4) by (simp add: py_int_def)
  have "query_song_ocp fuzzy_match world_backend ''hello my world''
           = Inr (PNum 100, PDict \<lparr>p_data = Response [world_track], p_name = None, p_type = ''track''\<rparr>)"
    using a b1 b2 c
    by (simp add: query_song_ocp_def split_world world_backend_def world_track_def
        worlds_track_def Let_def)
  then show ?thesis using a b1 b2 by (simp add: world_track_def worlds_track_def)
qed

theorem query_song_ocp_band_too_narrow_witness:
  "example_fuzzy_match DAMERAU_LEVENSHTEIN_SIMILARITY ''hello my worlds'' ''hello my world'' = 0.93 \<and>
   query_song_ocp example_fuzzy_match world_backend ''hello my world''
     = Inr (PNum 100, PDict \<lparr>p_data = Response [world_track], p_name = None, p_type = ''track''\<rparr>)"
proof -
  have h: "example_fuzzy_match DAMERAU_LEVENSHTEIN_SIMILARITY ''hello my world'' ''hello my world'' = 1"
    "example_fuzzy_match DAMERAU_LEVENSHTEIN_SIMILARITY ''hello my worlds'' ''hello my world'' = 0.93"
    "example_fuzzy_match TOKEN_SET_RATIO ''hello my world'' ''adele'' = 0"
    by (simp_all add: example_fuzzy_match_def)
  show ?thesis using query_song_ocp_band_too_narrow[of example_fuzzy_match] h by simp
qed

subsection \<open>The selection of query_song on the unit scale\<close>

lemma band_select:
  fixes xs :: "(real \<times> item) list"
  assumes "xs \<noteq> []"
  defines "t1 \<equiv> rev (sort_key fst xs)"
  defines "t2 \<equiv> filter (\<lambda>t. fst t > fst (hd t1) - 0.1) t1"
  defines "b \<equiv> last (sort_key (\<lambda>t. item_popularity (snd t)) t2)"
  shows "hd t1 \<in> set xs" "\<forall>t \<in> set xs. fst t \<le> fst (hd t1)"
        "b \<in> set xs" "fst b > fst (hd t1) - 0.1"
        "\<forall>t \<in> set xs. fst t > fst (hd t1) - 0.1 \<longrightarrow> item_popularity (snd t) \<le> item_popularity (snd b)"
proof -
  let ?ys = "sort_key fst xs"
  have ne: "?ys \<noteq> []" using assms(1) by (metis length_0_conv length_sort)
  have hd: "hd t1 = last ?ys" unfolding t1_def using ne by (simp add: hd_rev)
  have "last ?ys \<in> set ?ys" using ne by (rule last_in_set)
  then show h1: "hd t1 \<in> set xs" using hd by simp
  show "\<forall>t \<in> set xs. fst t \<le> fst (hd t1)"
    using sorted_last_max[of fst ?ys] hd by simp
  have st2: "set t2 = {t \<in> set xs. fst t > fst (hd t1) - 0.1}"
    unfolding t2_def by (auto simp: t1_def)
  have "hd t1 \<in> set t2" using h1 st2 by simp
  then have ne2: "sort_key (\<lambda>t. item_popularity (snd t)) t2 \<noteq> []"
    by (metis empty_iff empty_set set_sort)
  have "b \<in> set (sort_key (\<lambda>t. item_popularity (snd t)) t2)"
    unfolding b_def using ne2 by (rule last_in_set)
  then have bt2: "b \<in> set t2" by simp
  then show "b \<in> set xs" "fst b > fst (hd t1) - 0.1" using st2 by auto
  show "\<forall>t \<in> set xs. fst t > fst (hd t1) - 0.1 \<longrightarrow> item_popularity (snd t) \<le> item_popularity (snd b)"
  proof (intro ballI impI)
    fix t assume "t \<in> set xs" "fst t > fst (hd t1) - 0.1"
    then have "t \<in> set (sort_key (\<lambda>t. item_popularity (snd t)) t2)" using st2 by simp
    then show "item_popularity (snd t) \<le> item_popularity (snd b)"
      unfolding b_def
      using sorted_last_max[of "\<lambda>t. item_popularity (snd t)" "sort_key (\<lambda>t. item_popularity (snd t)) t2" t]
      by simp
  qed
qed

text \<open>
  \<open>query_song\<close> of \<^verbatim>\<open>src/skill_spotify/spotify.py\<close>, on the unit scale: for a
  non-empty track result whose tracks all name an artist, the returned track \<open>w\<close> scores within 0.1 of the best
  score (that of \<open>b\<close>) and no track within that band is more popular than \<open>w\<close>.
  The scores are those of \<open>best_confidence\<close> against the song name, which is the
  part before the word by when the phrase has one.
\<close>

theorem query_song_client_selection:
  assumes "str_split by_word song0 = [song0] \<and> song = song0 \<and> song_search = song0 \<or>
           str_split by_word song0 = [song, artist] \<and>
             song_search = ''*'' @ song @ ''* artist:'' @ artist"
      and "search song_search ''track'' = Some items" and "items \<noteq> []"
      and "\<forall>t \<in> set items. item_artists t \<noteq> []"
  shows "\<exists>w \<in> set items. \<exists>b \<in> set items.
           query_song_client fm search song0 bonus
             = Inr (PNum (best_confidence_client fm (item_name w) song + bonus),
                    PDict \<lparr>p_data = Response [w], p_name = None, p_type = ''track''\<rparr>) \<and>
           (\<forall>t \<in> set items. best_confidence_client fm (item_name t) song
                               \<le> best_confidence_client fm (item_name b) song) \<and>
           best_confidence_client fm (item_name w) song
             > best_confidence_client fm (item_name b) song - 0.1 \<and>
           (\<forall>t \<in> set items.
              best_confidence_client fm (item_name t) song
                > best_confidence_client fm (item_name b) song - 0.1
              \<longrightarrow> item_popularity t \<le> item_popularity w)"
proof -
  let ?sc = "\<lambda>d. best_confidence_client fm (item_name d) song"
  define xs where "xs = map (\<lambda>d. (?sc d, d)) items"
  define t1 where "t1 = rev (sort_key fst xs)"
  define t2 where "t2 = filter (\<lambda>t. fst t > fst (hd t1) - 0.1) t1"
  define b where "b = last (sort_key (\<lambda>t. item_popularity (snd t)) t2)"
  have ne: "xs \<noteq> []" using assms(3) by (simp add: xs_def)
  note sel = band_select[OF ne, folded t1_def, folded t2_def, folded b_def]
  have shape: "\<And>t. t \<in> set xs \<Longrightarrow> fst t = ?sc (snd t) \<and> snd t \<in> set items"
    by (auto simp: xs_def)
  obtain d ds where items: "items = d # ds" using assms(3) by (cases items) auto
  have "set (sort_key (\<lambda>t. item_popularity (snd t)) t2) \<subseteq> set xs"
    by (auto simp: t2_def t1_def)
  then have noart:
    "\<not> list_ex (\<lambda>t. item_artists (snd t) = []) (sort_key (\<lambda>t. item_popularity (snd t)) t2)"
    using shape assms(4) unfolding list_ex_iff by blast
  have res: "query_song_client fm search song0 bonus
      = Inr (PNum (fst b + bonus), PDict \<lparr>p_data = Response [snd b], p_name = None, p_type = ''track''\<rparr>)"
    using assms(1,2) noart
    by (elim disjE conjE)
       (simp_all add: query_song_client_def Let_def items b_def t2_def t1_def xs_def)
  have inxs: "\<And>t. t \<in> set items \<Longrightarrow> (?sc t, t) \<in> set xs" by (auto simp: xs_def)
  have w_in: "snd b \<in> set items" using shape[OF sel(3)] by simp
  have b_in: "snd (hd t1) \<in> set items" using shape[OF sel(1)] by simp
  have r: "query_song_client fm search song0 bonus
      = Inr (PNum (?sc (snd b) + bonus), PDict \<lparr>p_data = Response [snd b], p_name = None, p_type = ''track''\<rparr>)"
    using res shape[OF sel(3)] by simp
  have mx: "\<forall>t \<in> set items. ?sc t \<le> ?sc (snd (hd t1))"
    using sel(2) inxs shape[OF sel(1)] by fastforce
  have band: "?sc (snd b) > ?sc (snd (hd t1)) - 0.1"
    using sel(4) shape[OF sel(3)] shape[OF sel(1)] by simp
  have pop: "\<forall>t \<in> set items. ?sc t > ?sc (snd (hd t1)) - 0.1
               \<longrightarrow> item_popularity t \<le> item_popularity (snd b)"
    using sel(5) inxs shape[OF sel(1)] by fastforce
  show ?thesis
    using w_in b_in r mx band pop by blast
qed


theorem query_song_client_selection_witness:
  "str_split by_word ''hello'' = [''hello''] \<and>
   hello_backend ''hello'' ''track'' = Some [example_track] \<and>
   item_artists example_track \<noteq> [] \<and>
   query_song_client exact_match hello_backend ''hello'' 0
     = Inr (PNum 1, PDict \<lparr>p_data = Response [example_track], p_name = None, p_type = ''track''\<rparr>)"
proof -
  have a: "item_artists example_track \<noteq> []" by (simp add: example_track_def)
  have s: "str_split by_word ''hello'' = [''hello'']" by (rule split_hello)
  have b: "hello_backend ''hello'' ''track'' = Some [example_track]" by (simp add: hello_backend_def)
  have c: "best_confidence_client exact_match (item_name example_track) ''hello'' = 1"
    by (simp add: best_confidence_client_def example_track_def norm_hello exact_match_def)
  from query_song_client_selection[where ?song0.0 = "''hello''" and song = "''hello''"
      and song_search = "''hello''" and search = hello_backend and items = "[example_track]"
      and fm = exact_match and bonus = 0] s b a
  have "query_song_client exact_match hello_backend ''hello'' 0
     = Inr (PNum (best_confidence_client exact_match (item_name example_track) ''hello'' + 0),
            PDict \<lparr>p_data = Response [example_track], p_name = None, p_type = ''track''\<rparr>)"
    by simp
  then show ?thesis using s b c a by simp
qed

subsection \<open>Bounds of the sibling queries\<close>

lemma artist_ocp_le: "query_artist_ocp fms search artist = (PNum c, d) \<Longrightarrow> c \<le> 100"
  by (auto simp: query_artist_ocp_def Let_def NOTHING_FOUND_ocp_def
          split: option.splits list.splits)

lemma artist_client_le: "query_artist_client fm search artist bonus = (PNum c, d) \<Longrightarrow> c \<le> 1"
  by (auto simp: query_artist_client_def Let_def NOTHING_FOUND_client_def
          split: option.splits list.splits)

lemma album_ocp_le: "query_album_ocp fms search album = Inr (PNum c, d) \<Longrightarrow> c \<le> 100"
  unfolding query_album_ocp_def Let_def NOTHING_FOUND_ocp_def
  by (auto split: option.splits list.splits if_splits)

lemma album_client_le: "query_album_client fm search album bonus = Inr (PNum c, d) \<Longrightarrow> c \<le> 1"
  unfolding query_album_client_def Let_def NOTHING_FOUND_client_def
  by (auto split: option.splits list.splits if_splits)


lemma song_ocp_le: "query_song_ocp fms search song = Inr (PNum c, d) \<Longrightarrow> c \<le> 100"
  unfolding query_song_ocp_def Let_def NOTHING_FOUND_ocp_def
  by (auto simp del: sort_key_simps split: option.splits list.splits if_splits)

lemma tracks_scores_nonneg:
  fixes xs :: "(int \<times> item) list"
  assumes "xs \<noteq> []" "\<forall>t \<in> set xs. 0 \<le> fst t"
  shows "0 \<le> fst (last (sort_key (\<lambda>t. item_popularity (snd t))
                 (filter (\<lambda>t. real_of_int (fst t) > real_of_int (fst (hd (rev (sort_key fst xs)))) - 0.1)
                    (rev (sort_key fst xs)))))"
proof -
  let ?t1 = "rev (sort_key fst xs)"
  let ?t2 = "filter (\<lambda>t. real_of_int (fst t) > real_of_int (fst (hd ?t1)) - 0.1) ?t1"
  let ?t3 = "sort_key (\<lambda>t. item_popularity (snd t)) ?t2"
  have "?t1 \<noteq> []" using assms(1) by (metis length_0_conv length_sort length_rev)
  then have "hd ?t1 \<in> set ?t1" by (rule hd_in_set)
  then have "hd ?t1 \<in> set ?t2" by simp
  then have "?t3 \<noteq> []" by (metis empty_iff empty_set set_sort)
  then have "last ?t3 \<in> set ?t3" by (rule last_in_set)
  then have "last ?t3 \<in> set xs" by simp
  then show ?thesis using assms(2) by blast
qed

lemma best_confidence_ocp_nonneg:
  "\<forall>s a b. 0 \<le> fms s a b \<Longrightarrow> 0 \<le> best_confidence_ocp fms t q"
  by (simp add: best_confidence_ocp_def Let_def py_int_def le_max_iff_disj)

lemma song_ocp_ge:
  assumes nn: "\<forall>s a b. 0 \<le> fms s a b"
      and r: "query_song_ocp fms search song = Inr (PNum c, d)"
  shows "0 \<le> c"
proof -
  have F: "0 \<le> fst (last (sort_key (\<lambda>t. item_popularity (snd t))
                 (filter (\<lambda>t. real_of_int (fst t)
                     > real_of_int (fst (hd (rev (sort_key fst
                         (map (\<lambda>d. (best_confidence_ocp fms (item_name d) S, d)) (x # xs)))))) - 0.1)
                    (rev (sort_key fst
                       (map (\<lambda>d. (best_confidence_ocp fms (item_name d) S, d)) (x # xs)))))))"
    for S and x :: item and xs
    using tracks_scores_nonneg[of "map (\<lambda>d. (best_confidence_ocp fms (item_name d) S, d)) (x # xs)"]
      best_confidence_ocp_nonneg[OF nn]
    by (auto simp del: sort_key_simps list.map)
  have P: "0 \<le> py_int (fms s a b * 100)" for s a b
    using nn by (simp add: py_int_def)
  show ?thesis
    using r
    unfolding query_song_ocp_def Let_def NOTHING_FOUND_ocp_def
    by (auto simp del: sort_key_simps list.map split: option.splits list.splits if_splits
          intro!: add_nonneg_nonneg F P)
qed

text \<open>
  The sibling queries bound their confidence: \<open>query_artist\<close>, \<open>query_album\<close> and
  \<open>query_song\<close> of \<^verbatim>\<open>src/spotify.py\<close> never exceed 100, \<open>query_artist\<close> and
  \<open>query_album\<close> of \<^verbatim>\<open>src/skill_spotify/spotify.py\<close> never exceed 1; with a
  similarity function that is never negative the confidences of \<^verbatim>\<open>src/spotify.py\<close>
  are not negative either.
\<close>

theorem confidence_clamped_siblings:
  "(query_artist_ocp fms search artist = (PNum c, d) \<longrightarrow> c \<le> 100) \<and>
   (query_album_ocp fms search album = Inr (PNum c, d) \<longrightarrow> c \<le> 100) \<and>
   (query_song_ocp fms search song = Inr (PNum c, d) \<longrightarrow> c \<le> 100) \<and>
   (query_artist_client fm search artist bonus = (PNum c, d) \<longrightarrow> c \<le> 1) \<and>
   (query_album_client fm search album bonus = Inr (PNum c, d) \<longrightarrow> c \<le> 1) \<and>
   ((\<forall>s a b. 0 \<le> fms s a b) \<longrightarrow>
      (query_artist_ocp fms search artist = (PNum c, d) \<longrightarrow> 0 \<le> c) \<and>
      (query_album_ocp fms search album = Inr (PNum c, d) \<longrightarrow> 0 \<le> c) \<and>
      (query_song_ocp fms search song = Inr (PNum c, d) \<longrightarrow> 0 \<le> c))"
proof -
  have b1: "query_artist_ocp fms search artist = (PNum c, d) \<longrightarrow> 0 \<le> c"
    if "\<forall>s a b. 0 \<le> fms s a b"
    using that
    by (auto simp: query_artist_ocp_def Let_def NOTHING_FOUND_ocp_def
          split: option.splits list.splits)
  have b2: "query_album_ocp fms search album = Inr (PNum c, d) \<longrightarrow> 0 \<le> c"
    if nn: "\<forall>s a b. 0 \<le> fms s a b"
    using best_confidence_ocp_nonneg[OF nn]
    unfolding query_album_ocp_def Let_def NOTHING_FOUND_ocp_def
    by (auto split: option.splits list.splits if_splits)
  show ?thesis
    using artist_ocp_le[of fms search artist c d] album_ocp_le[of fms search album c d]
      song_ocp_le[of fms search song c d] artist_client_le[of fm search artist bonus c d]
      album_client_le[of fm search album bonus c d] b1 b2
      song_ocp_ge[of fms search song c d]
    by blast
qed

theorem confidence_clamped_siblings_witness:
  "query_artist_client exact_match hello_backend ''hello'' 0.1
     = (PNum 1, PDict \<lparr>p_data = Response [example_track], p_name = None, p_type = ''artist''\<rparr>) \<and>
   (1 :: real) \<le> 1"
proof -
  have r: "query_artist_client exact_match hello_backend ''hello'' 0.1
     = (PNum 1, PDict \<lparr>p_data = Response [example_track], p_name = None, p_type = ''artist''\<rparr>)"
    by (simp add: query_artist_client_def hello_backend_def example_track_def norm_hello
        exact_match_def Let_def)
  show ?thesis
    using confidence_clamped_siblings[where fm = exact_match and search = hello_backend
        and artist = "''hello''" and bonus = "0.1" and c = 1] r
    by simp
qed

subsection \<open>generic_query of the skill\<close>

lemma lookup_step_as_tuple:
  "lookup_step (Inr (as_tuple x)) cands =
     (case x of
        (None, d) \<Rightarrow> Next cands
      | (Some c, d) \<Rightarrow>
          if c > 0.8 then Return (PNum c, d)
          else if c > 0.5 then Next (cands @ [(c, d)]) else Next cands)"
  by (cases x rule: as_tuple.cases)
     (auto simp: lookup_step_def threshold_step_def DIRECT_RESPONSE_CONFIDENCE_def
        MATCH_CONFIDENCE_def)

lemma user_step_as_tuple:
  assumes "found = Inr (PStr k, PNum c) \<and> k \<noteq> [] \<and> map_of user_playlists k = Some uri \<and>
             u = (Some c, PDict \<lparr>p_data = Object uri, p_name = Some k, p_type = ''playlist''\<rparr>)
           \<or> found = Inr NOTHING_FOUND_client \<and> u = (None, PNone)"
  shows "user_playlist_step_skill found user_playlists = lookup_step (Inr (as_tuple u)) []"
  using assms
  by (auto simp: user_playlist_step_skill_def lookup_step_def threshold_step_def
        NOTHING_FOUND_client_def)

text \<open>
  \<open>generic_query\<close> of the skill against the specification's order. When the
  user-playlist lookup found a playlist of the dictionary or nothing, and the other
  four lookups return results, the method evaluates exactly the lookups the
  specification evaluates and returns what it returns.
\<close>

theorem generic_query_skill_follows_order:
  assumes "get_best_user_playlist phrase = Inr (PStr k, PNum c) \<and> k \<noteq> [] \<and>
             map_of user_playlists k = Some uri \<and>
             u = (Some c, PDict \<lparr>p_data = Object uri, p_name = Some k, p_type = ''playlist''\<rparr>)
           \<or> get_best_user_playlist phrase = Inr NOTHING_FOUND_client \<and> u = (None, PNone)"
      and "query_artist phrase bonus = Inr (as_tuple a)"
      and "query_song phrase bonus = Inr (as_tuple t)"
      and "query_album phrase bonus = Inr (as_tuple al)"
      and "get_best_public_playlist phrase = Inr (as_tuple p)"
  shows "generic_query_skill get_best_user_playlist user_playlists query_artist query_song query_album
           get_best_public_playlist phrase bonus
         = (case generic_query_spec
                   [(UserPlaylist, u), (Artist, a), (Track, t), (Album, al), (PublicPlaylist, p)] []
            of (ks, r) \<Rightarrow> (ks, Inr r))"
proof -
  obtain uc ud where u: "u = (uc, ud)" by (cases u)
  obtain ac ad where a: "a = (ac, ad)" by (cases a)
  obtain tc td where t: "t = (tc, td)" by (cases t)
  obtain alc ald where al: "al = (alc, ald)" by (cases al)
  obtain pc pd where p: "p = (pc, pd)" by (cases p)
  show ?thesis
    unfolding generic_query_skill_def user_step_as_tuple[OF assms(1)] assms(2-5)
      lookup_step_as_tuple u a t al p
    by (cases uc; cases ac; cases tc; cases alc; cases pc) (simp_all)
qed

theorem generic_query_skill_follows_order_witness:
  "generic_query_skill nothing_lookup [] weak_artist_stage nothing_stage example_stage
       nothing_lookup ''heavy metal'' 0
     = ([UserPlaylist, Artist, Track, Album], Inr example_album_result) \<and>
   generic_query_skill nothing_lookup [] weak_artist_stage nothing_stage nothing_stage
       nothing_lookup ''heavy metal'' 0
     = ([UserPlaylist, Artist, Track, Album, PublicPlaylist],
        Inr (PNum 0.6, PDict \<lparr>p_data = Response [example_track], p_name = None, p_type = ''artist''\<rparr>))"
proof -
  let ?artist = "PDict \<lparr>p_data = Response [example_track], p_name = None, p_type = ''artist''\<rparr>"
  let ?album = "PDict \<lparr>p_data = Response [example_track], p_name = None, p_type = ''album''\<rparr>"
  have n: "nothing_lookup ''heavy metal'' = Inr NOTHING_FOUND_client"
    "nothing_lookup ''heavy metal'' = Inr (as_tuple (None, PNum 0))"
    "nothing_stage ''heavy metal'' 0 = Inr (as_tuple (None, PNum 0))"
    "weak_artist_stage ''heavy metal'' 0 = Inr (as_tuple (Some 0.6, ?artist))"
    "example_stage ''heavy metal'' 0 = Inr (as_tuple (Some 0.9, ?album))"
    by (simp_all add: nothing_lookup_def nothing_stage_def weak_artist_stage_def example_stage_def
        example_album_result_def NOTHING_FOUND_client_def)
  have a: "generic_query_skill nothing_lookup [] weak_artist_stage nothing_stage example_stage
       nothing_lookup ''heavy metal'' 0
     = ([UserPlaylist, Artist, Track, Album], Inr example_album_result)"
    using generic_query_skill_follows_order[where get_best_user_playlist = nothing_lookup
        and phrase = "''heavy metal''" and u = "(None, PNone)" and bonus = 0
        and query_artist = weak_artist_stage and a = "(Some 0.6, ?artist)"
        and query_song = nothing_stage and t = "(None, PNum 0)"
        and query_album = example_stage and al = "(Some 0.9, ?album)"
        and get_best_public_playlist = nothing_lookup and p = "(None, PNum 0)"
        and user_playlists = "[]"] n
    by (simp add: example_album_result_def)
  have b: "generic_query_skill nothing_lookup [] weak_artist_stage nothing_stage nothing_stage
       nothing_lookup ''heavy metal'' 0
     = ([UserPlaylist, Artist, Track, Album, PublicPlaylist], Inr (PNum 0.6, ?artist))"
    using generic_query_skill_follows_order[where get_best_user_playlist = nothing_lookup
        and phrase = "''heavy metal''" and u = "(None, PNone)" and bonus = 0
        and query_artist = weak_artist_stage and a = "(Some 0.6, ?artist)"
        and query_song = nothing_stage and t = "(None, PNum 0)"
        and query_album = nothing_stage and al = "(None, PNum 0)"
        and get_best_public_playlist = nothing_lookup and p = "(None, PNum 0)"
        and user_playlists = "[]"] n
    by (simp add: best_result_client_def)
  show ?thesis using a b by simp
qed

subsection \<open>generic_query of the client\<close>

lemma threshold_step_Return:
  "threshold_step r rs = Return q \<Longrightarrow> q = r \<and> (\<exists>c. fst r = PNum c \<and> c > DIRECT_RESPONSE_CONFIDENCE)"
  by (auto simp: threshold_step_def split: pyval.splits if_splits)

lemma lookup_step_Return:
  "lookup_step x rs = Return q \<Longrightarrow> x = Inr q \<and> (\<exists>c. fst q = PNum c \<and> c > DIRECT_RESPONSE_CONFIDENCE)"
  by (cases x) (auto simp: lookup_step_def dest: threshold_step_Return)

lemma user_playlist_step_Return:
  "user_playlist_step mo pls phrase = Return q \<Longrightarrow> \<exists>c. fst q = PNum c \<and> c > DIRECT_RESPONSE_CONFIDENCE"
  by (auto simp: user_playlist_step_def split: prod.splits if_splits pyval.splits option.splits
        dest!: threshold_step_Return)

lemma and_then_Return:
  "and_then m f = Return q \<Longrightarrow> m = Return q \<or> (\<exists>a. m = Next a \<and> f a = Return q)"
  by (cases m) (auto simp: and_then_def)

text \<open>
  \<open>generic_query\<close> of \<^verbatim>\<open>src/skill_spotify/spotify.py\<close> returns a value only as
  a direct response: every result it returns has a confidence above 0.8, it never
  returns NOTHING_FOUND, and a direct response of the user-playlist lookup is
  returned whatever the backend would answer to the later searches.
\<close>

theorem generic_query_client_only_direct:
  "(generic_query_client fm mo search pls phrase = Inr r \<longrightarrow>
      (\<exists>c. fst r = PNum c \<and> c > DIRECT_RESPONSE_CONFIDENCE)) \<and>
   generic_query_client fm mo search pls phrase \<noteq> Inr NOTHING_FOUND_client \<and>
   (user_playlist_step mo pls phrase = Return r \<longrightarrow>
      generic_query_client fm mo search pls phrase = Inr r)"
proof -
  have d: "\<exists>c. fst r = PNum c \<and> c > DIRECT_RESPONSE_CONFIDENCE"
    if "generic_query_client fm mo search pls phrase = Inr r" for r
  proof -
    let ?m = "and_then (user_playlist_step mo pls phrase) (\<lambda>results.
        and_then (threshold_step (query_artist_client fm search phrase 0) results) (\<lambda>results.
        and_then (lookup_step (query_song_client fm search phrase 0) results) (\<lambda>results.
        and_then (lookup_step (query_album_client fm search phrase 0) results) (\<lambda>results.
        (Raise AttributeError :: unit flow)))))"
    have "?m = Return r"
      using that unfolding generic_query_client_def by (cases ?m) auto
    then show ?thesis
      by (auto dest!: and_then_Return dest: user_playlist_step_Return threshold_step_Return
            lookup_step_Return)
  qed
  have n: "generic_query_client fm mo search pls phrase \<noteq> Inr NOTHING_FOUND_client"
    using d[of NOTHING_FOUND_client] by (auto simp: NOTHING_FOUND_client_def)
  have u: "generic_query_client fm mo search pls phrase = Inr r"
    if "user_playlist_step mo pls phrase = Return r"
    using that by (simp add: generic_query_client_def and_then_def)
  show ?thesis using d n u by blast
qed

text \<open>
  When \<open>match_one\<close> picks a value of the dictionary it was handed, a playlist object,
  \<open>generic_query\<close> of \<^verbatim>\<open>src/skill_spotify/spotify.py\<close> uses that object as a key of
  \<^verbatim>\<open>self.playlists\<close>, which raises TypeError.
\<close>

lemma generic_query_client_value_match:
  assumes "pls \<noteq> []" and "mo (str_lower phrase) pls = (PItem v, c)" and "c > 0.7"
  shows "generic_query_client fm mo search pls phrase = Inl TypeError"
  using assms
  by (simp add: generic_query_client_def user_playlist_step_def get_best_user_playlist_client_def
        and_then_def)

theorem generic_query_client_only_direct_witness:
  "generic_query_client exact_match example_match_one empty_backend [(''hello'', example_track)] ''hello''
     = Inr (PNum 0.9,
            PDict \<lparr>p_data = Object example_track, p_name = Some ''hello'', p_type = ''playlist''\<rparr>)"
proof -
  have "user_playlist_step example_match_one [(''hello'', example_track)] ''hello''
      = Return (PNum 0.9,
            PDict \<lparr>p_data = Object example_track, p_name = Some ''hello'', p_type = ''playlist''\<rparr>)"
    by (simp add: user_playlist_step_def get_best_user_playlist_client_def example_match_one_def
        threshold_step_def DIRECT_RESPONSE_CONFIDENCE_def)
  then show ?thesis
    using generic_query_client_only_direct[of exact_match example_match_one empty_backend
        "[(''hello'', example_track)]" "''hello''"]
    by simp
qed

end
